theory Spec2Isabelle
  imports Main
begin

section \<open>Python values, dictionaries and exceptions\<close>

text \<open>
  A parsed JSON document, and every dictionary the tools build, is a value of \<open>json\<close>.
  \<open>JObj\<close> holds the items of a Python \<open>dict\<close> in insertion order; \<open>JNull\<close> is Python's
  \<open>None\<close>; \<open>JFloat m e\<close> is the float \<open>m * 2 ^ e\<close> of a number written with a fraction or
  an exponent.
\<close>

datatype json =
    JNull
  | JBool bool
  | JInt int
  | JFloat int int
  | JStr string
  | JArr "json list"
  | JObj "(string \<times> json) list"

type_synonym dict = "(string \<times> json) list"

text \<open>
  Exceptions carry their class and the text that \<open>str(e)\<close> gives. The first four classes
  belong to the hierarchy of \<open>requests.RequestException\<close> (the decode error of
  \<open>Response.json()\<close> is one of them since requests 2.27); the others do not, among them
  the \<open>RecursionError\<close> and the \<open>ValueError\<close> that the JSON decoder raises on a document
  nested too deep and on an integer of more than 4300 digits.
\<close>

datatype exc_class =
    ConnectionError
  | Timeout
  | HTTPError
  | JSONDecodeError
  | AttributeError
  | TypeError
  | KeyError
  | RecursionError
  | ValueError
  | ValidationError
  | OtherError

datatype exc = Exc exc_class string

fun exc_class_of :: "exc \<Rightarrow> exc_class" where
  "exc_class_of (Exc c m) = c"

fun str_exc :: "exc \<Rightarrow> string" where
  "str_exc (Exc c m) = m"

fun is_RequestException :: "exc \<Rightarrow> bool" where
  "is_RequestException (Exc ConnectionError m) = True"
| "is_RequestException (Exc Timeout m) = True"
| "is_RequestException (Exc HTTPError m) = True"
| "is_RequestException (Exc JSONDecodeError m) = True"
| "is_RequestException (Exc c m) = False"

text \<open>\<open>d.get(k)\<close> and \<open>d.get(k, default)\<close> on a dict; \<open>d[k] = v\<close>.\<close>

definition py_get :: "dict \<Rightarrow> string \<Rightarrow> json" where
  "py_get d k = (case map_of d k of None \<Rightarrow> JNull | Some v \<Rightarrow> v)"

definition py_get_default :: "dict \<Rightarrow> string \<Rightarrow> json \<Rightarrow> json" where
  "py_get_default d k dflt = (case map_of d k of None \<Rightarrow> dflt | Some v \<Rightarrow> v)"

fun dict_set :: "dict \<Rightarrow> string \<Rightarrow> json \<Rightarrow> dict" where
  "dict_set [] k v = [(k, v)]"
| "dict_set ((k', v') # d) k v = (if k' = k then (k, v) # d else (k', v') # dict_set d k v)"

text \<open>\<open>x.get(...)\<close> on an arbitrary value: only a dict has the method.\<close>

definition no_get :: exc where
  "no_get = Exc AttributeError ''object has no attribute get''"

fun value_get :: "json \<Rightarrow> string \<Rightarrow> exc + json" where
  "value_get (JObj d) k = Inr (py_get d k)"
| "value_get v k = Inl no_get"

fun value_get_default :: "json \<Rightarrow> string \<Rightarrow> json \<Rightarrow> exc + json" where
  "value_get_default (JObj d) k dflt = Inr (py_get_default d k dflt)"
| "value_get_default v k dflt = Inl no_get"

text \<open>Truth value of a Python object (\<open>if x:\<close>, \<open>if not x:\<close>).\<close>

fun truthy :: "json \<Rightarrow> bool" where
  "truthy JNull = False"
| "truthy (JBool b) = b"
| "truthy (JInt i) = (i \<noteq> 0)"
| "truthy (JFloat m e) = (m \<noteq> 0)"
| "truthy (JStr s) = (s \<noteq> [])"
| "truthy (JArr xs) = (xs \<noteq> [])"
| "truthy (JObj d) = (d \<noteq> [])"

text \<open>\<open>for rec in x\<close>: the elements of a list, the keys of a dict, the characters of a
  string; anything else is not iterable.\<close>

fun py_iter :: "json \<Rightarrow> exc + json list" where
  "py_iter (JArr xs) = Inr xs"
| "py_iter (JObj d) = Inr (map (\<lambda>(k, v). JStr k) d)"
| "py_iter (JStr s) = Inr (map (\<lambda>c. JStr [c]) s)"
| "py_iter v = Inl (Exc TypeError ''object is not iterable'')"

text \<open>\<open>x[0]\<close>: the first element of a list, the first character of a string; the keys of
  a parsed JSON object are strings, so the integer key \<open>0\<close> is never among them.\<close>

fun py_first :: "json \<Rightarrow> exc + json" where
  "py_first (JArr (x # xs)) = Inr x"
| "py_first (JArr []) = Inl (Exc OtherError ''list index out of range'')"
| "py_first (JStr (c # s)) = Inr (JStr [c])"
| "py_first (JStr []) = Inl (Exc OtherError ''string index out of range'')"
| "py_first (JObj d) = Inl (Exc KeyError ''0'')"
| "py_first v = Inl (Exc TypeError ''object is not subscriptable'')"

text \<open>\<open>sep.join(parts)\<close> and \<open>str(n)\<close> for a length.\<close>

fun str_join :: "string \<Rightarrow> string list \<Rightarrow> string" where
  "str_join sep [] = []"
| "str_join sep [p] = p"
| "str_join sep (p # q # ps) = p @ sep @ str_join sep (q # ps)"

definition digit_char :: "nat \<Rightarrow> char" where
  "digit_char d = ''0123456789'' ! d"

function str_nat :: "nat \<Rightarrow> string" where
  "str_nat n = (if n < 10 then [digit_char n] else str_nat (n div 10) @ [digit_char (n mod 10)])"
  by pat_completeness auto
termination
  by (relation "measure id") auto

declare str_nat.simps [simp del]

definition str_int :: "int \<Rightarrow> string" where
  "str_int i = (if i < 0 then CHR ''-'' # str_nat (nat (- i)) else str_nat (nat i))"

section \<open>Collaborators: configuration, authentication, HTTP transport\<close>

text \<open>
  \<open>ServerConfig\<close> and \<open>AuthManager\<close> are imported by the tools; the tools read
  \<open>config.api_url\<close> and \<open>config.timeout\<close> and call \<open>auth_manager.get_headers()\<close>, which
  returns the headers or raises.
\<close>

record ServerConfig =
  api_url :: string
  timeout :: int

type_synonym headers = "(string \<times> string) list"

record AuthManager =
  get_headers :: "exc + headers"

record request =
  req_url :: string
  req_params :: dict
  req_headers :: headers
  req_timeout :: int

text \<open>
  A \<open>requests.Response\<close>: its status code, reason phrase and URL, and what \<open>json()\<close>
  does with its body: it returns the parsed document, or it raises. What it raises on text
  that is not JSON is the \<open>JSONDecodeError\<close> of requests; an exception of the decoder that
  is no decode error (\<open>RecursionError\<close>, \<open>ValueError\<close>) passes through \<open>json()\<close> as it is.
\<close>

record response =
  status_code :: int
  reason :: string
  resp_url :: string
  body :: "exc + json"

text \<open>\<open>requests.get\<close> raises (connection error, timeout) or returns a response.\<close>

datatype http_result = Raises exc | Responds response

type_synonym transport = "request \<Rightarrow> http_result"

text \<open>\<open>Response.raise_for_status()\<close>: an \<open>HTTPError\<close> for a 4xx or 5xx status, nothing
  otherwise.\<close>

definition raise_for_status :: "response \<Rightarrow> exc option" where
  "raise_for_status r =
     (if 400 \<le> status_code r \<and> status_code r < 500 then
        Some (Exc HTTPError
          (str_int (status_code r) @ '' Client Error: '' @ reason r @ '' for url: '' @ resp_url r))
      else if 500 \<le> status_code r \<and> status_code r < 600 then
        Some (Exc HTTPError
          (str_int (status_code r) @ '' Server Error: '' @ reason r @ '' for url: '' @ resp_url r))
      else None)"

definition response_json :: "response \<Rightarrow> exc + json" where
  "response_json r = (case body r of Inl e \<Rightarrow> Inl e | Inr v \<Rightarrow> Inr v)"

text \<open>
  What a call does besides returning: the HTTP requests it issues and the errors it logs,
  in order. A call returns a value (\<open>Inr\<close>) or raises (\<open>Inl\<close>).
\<close>

datatype event = HttpGet request | LogError string

type_synonym 'a outcome = "event list \<times> (exc + 'a)"

text \<open>
  The first statements of every \<open>try\<close> block: \<open>requests.get(api_url, params=query_params,
  headers=auth_manager.get_headers(), timeout=config.timeout)\<close>, then
  \<open>response.raise_for_status()\<close>, then \<open>response.json()\<close>. The headers are computed before
  the request is sent.
\<close>

definition get_json :: "ServerConfig \<Rightarrow> AuthManager \<Rightarrow> transport \<Rightarrow> string \<Rightarrow> dict \<Rightarrow> json outcome" where
  "get_json config auth_manager http url query_params =
     (case get_headers auth_manager of
        Inl e \<Rightarrow> ([], Inl e)
      | Inr hdrs \<Rightarrow>
          (let req = \<lparr>req_url = url, req_params = query_params, req_headers = hdrs,
                      req_timeout = timeout config\<rparr>
           in case http req of
                Raises e \<Rightarrow> ([HttpGet req], Inl e)
              | Responds resp \<Rightarrow>
                  (case raise_for_status resp of
                     Some e \<Rightarrow> ([HttpGet req], Inl e)
                   | None \<Rightarrow> ([HttpGet req], response_json resp))))"

text \<open>
  \<open>except requests.RequestException as e\<close>: a request exception is logged and becomes the
  given envelope; any other exception propagates.
\<close>

definition except_RequestException :: "string \<Rightarrow> (string \<Rightarrow> json) \<Rightarrow> json outcome \<Rightarrow> json outcome" where
  "except_RequestException prefix envelope r =
     (case snd r of
        Inr v \<Rightarrow> r
      | Inl e \<Rightarrow>
          if is_RequestException e
          then (fst r @ [LogError (prefix @ str_exc e)], Inr (envelope (prefix @ str_exc e)))
          else r)"

text \<open>The two failure envelopes of the \<open>except\<close> clauses: \<open>list_problems\<close> and
  \<open>search_problems\<close> add an empty \<open>problems\<close> list, \<open>get_problem_by_number\<close> does not.\<close>

definition failure_with_problems :: "string \<Rightarrow> json" where
  "failure_with_problems msg =
     JObj [(''success'', JBool False), (''message'', JStr msg), (''problems'', JArr [])]"

definition failure_plain :: "string \<Rightarrow> json" where
  "failure_plain msg = JObj [(''success'', JBool False), (''message'', JStr msg)]"

section \<open>Parameters\<close>

record ListProblemsParams =
  limit :: int
  offset :: int
  state :: "string option"
  assigned_to :: "string option"
  category :: "string option"
  query :: "string option"

record GetProblemByNumberParams =
  problem_number :: string

text \<open>The fields of \<open>SearchProblemsParams\<close> carry the prefix \<open>search_\<close> here: two
  records cannot share the field names \<open>limit\<close> and \<open>offset\<close>.\<close>

record SearchProblemsParams =
  search_keywords :: "string list"
  search_limit :: int
  search_offset :: int

text \<open>
  Construction of the parameter models from keyword arguments (\<open>None\<close>: argument not
  given). A field declared \<open>Field(...)\<close> is required; the others have the declared
  default. No field carries a constraint on its value.
\<close>

definition field_required :: "string \<Rightarrow> exc" where
  "field_required name = Exc ValidationError (name @ '': Field required'')"

definition new_ListProblemsParams ::
  "int option \<Rightarrow> int option \<Rightarrow> string option \<Rightarrow> string option \<Rightarrow> string option \<Rightarrow> string option
    \<Rightarrow> exc + ListProblemsParams" where
  "new_ListProblemsParams lim off st asg cat q =
     Inr \<lparr>limit = (case lim of None \<Rightarrow> 10 | Some l \<Rightarrow> l),
          offset = (case off of None \<Rightarrow> 0 | Some off' \<Rightarrow> off'),
          state = st, assigned_to = asg, category = cat, query = q\<rparr>"

definition new_GetProblemByNumberParams :: "string option \<Rightarrow> exc + GetProblemByNumberParams" where
  "new_GetProblemByNumberParams num =
     (case num of
        None \<Rightarrow> Inl (field_required ''problem_number'')
      | Some n \<Rightarrow> Inr \<lparr>problem_number = n\<rparr>)"

definition new_SearchProblemsParams ::
  "string list option \<Rightarrow> int option \<Rightarrow> int option \<Rightarrow> exc + SearchProblemsParams" where
  "new_SearchProblemsParams kws lim off =
     (case kws of
        None \<Rightarrow> Inl (field_required ''keywords'')
      | Some ks \<Rightarrow>
          Inr \<lparr>search_keywords = ks,
               search_limit = (case lim of None \<Rightarrow> 10 | Some l \<Rightarrow> l),
               search_offset = (case off of None \<Rightarrow> 0 | Some off' \<Rightarrow> off')\<rparr>)"

section \<open>The problem tools\<close>

text \<open>
  The detail view of one record, as \<open>list_problems\<close> builds it in its loop (lines 96 to
  114) and \<open>get_problem_by_number\<close> for its single record (lines 173 to 189): the same
  statements in both. The first \<open>rec.get\<close> raises when \<open>rec\<close> is not a dict.
\<close>

definition problem_detail :: "json \<Rightarrow> exc + json" where
  "problem_detail rec =
     (case rec of
        JObj d \<Rightarrow>
          (let assigned_to = py_get d ''assigned_to'';
               assigned_to = (case assigned_to of
                                JObj a \<Rightarrow> py_get a ''display_value''
                              | _ \<Rightarrow> assigned_to)
           in Inr (JObj
                [(''sys_id'', py_get d ''sys_id''),
                 (''number'', py_get d ''number''),
                 (''short_description'', py_get d ''short_description''),
                 (''description'', py_get d ''description''),
                 (''state'', py_get d ''state''),
                 (''priority'', py_get d ''priority''),
                 (''assigned_to'', assigned_to),
                 (''category'', py_get d ''category''),
                 (''subcategory'', py_get d ''subcategory''),
                 (''created_on'', py_get d ''sys_created_on''),
                 (''updated_on'', py_get d ''sys_updated_on'')]))
      | _ \<Rightarrow> Inl no_get)"

text \<open>The compact view of \<open>search_problems\<close> (lines 256 to 266).\<close>

definition problem_compact :: "json \<Rightarrow> exc + json" where
  "problem_compact rec =
     (case rec of
        JObj d \<Rightarrow>
          Inr (JObj
            [(''sys_id'', py_get d ''sys_id''),
             (''number'', py_get d ''number''),
             (''short_description'', py_get d ''short_description''),
             (''state'', py_get d ''state''),
             (''priority'', py_get d ''priority''),
             (''created_on'', py_get d ''sys_created_on''),
             (''updated_on'', py_get d ''sys_updated_on'')])
      | _ \<Rightarrow> Inl no_get)"

text \<open>The loop \<open>for rec in ...: problems.append(...)\<close>: it stops at the first record that
  raises.\<close>

fun collect :: "(json \<Rightarrow> exc + json) \<Rightarrow> json list \<Rightarrow> json list \<Rightarrow> exc + json list" where
  "collect view [] problems = Inr problems"
| "collect view (rec # recs) problems =
     (case view rec of
        Inl e \<Rightarrow> Inl e
      | Inr p \<Rightarrow> collect view recs (problems @ [p]))"

definition problems_of :: "(json \<Rightarrow> exc + json) \<Rightarrow> json \<Rightarrow> exc + json list" where
  "problems_of view data =
     (case value_get_default data ''result'' (JArr []) of
        Inl e \<Rightarrow> Inl e
      | Inr result \<Rightarrow>
          (case py_iter result of
             Inl e \<Rightarrow> Inl e
           | Inr recs \<Rightarrow> collect view recs []))"

subsection \<open>list_problems\<close>

definition list_filters :: "ListProblemsParams \<Rightarrow> string list" where
  "list_filters params =
     (let filters = [];
          filters = (case state params of
                       Some s \<Rightarrow> if s \<noteq> [] then filters @ [''state='' @ s] else filters
                     | None \<Rightarrow> filters);
          filters = (case assigned_to params of
                       Some s \<Rightarrow> if s \<noteq> [] then filters @ [''assigned_to='' @ s] else filters
                     | None \<Rightarrow> filters);
          filters = (case category params of
                       Some s \<Rightarrow> if s \<noteq> [] then filters @ [''category='' @ s] else filters
                     | None \<Rightarrow> filters);
          filters = (case query params of
                       Some s \<Rightarrow>
                         if s \<noteq> []
                         then filters @ [''short_descriptionLIKE'' @ s @ ''^ORdescriptionLIKE'' @ s]
                         else filters
                     | None \<Rightarrow> filters)
      in filters)"

definition list_query_params :: "ListProblemsParams \<Rightarrow> dict" where
  "list_query_params params =
     (let query_params =
            [(''sysparm_limit'', JInt (limit params)),
             (''sysparm_offset'', JInt (offset params)),
             (''sysparm_display_value'', JStr ''true''),
             (''sysparm_exclude_reference_link'', JStr ''true'')];
          filters = list_filters params
      in if filters \<noteq> []
         then dict_set query_params ''sysparm_query'' (JStr (str_join ''^'' filters))
         else query_params)"

text \<open>The body of the \<open>try\<close> block after the request, and the tool with its \<open>except\<close>
  clause.\<close>

definition list_problems_try ::
  "ServerConfig \<Rightarrow> AuthManager \<Rightarrow> transport \<Rightarrow> string \<Rightarrow> dict \<Rightarrow> json outcome" where
  "list_problems_try config auth_manager http url query_params =
     (case get_json config auth_manager http url query_params of
        (evs, Inl e) \<Rightarrow> (evs, Inl e)
      | (evs, Inr data) \<Rightarrow>
          (case problems_of problem_detail data of
             Inl e \<Rightarrow> (evs, Inl e)
           | Inr problems \<Rightarrow>
               (evs, Inr (JObj
                  [(''success'', JBool True),
                   (''message'', JStr (''Found '' @ str_nat (length problems) @ '' problems'')),
                   (''problems'', JArr problems)]))))"

definition list_problems ::
  "ServerConfig \<Rightarrow> AuthManager \<Rightarrow> transport \<Rightarrow> ListProblemsParams \<Rightarrow> json outcome" where
  "list_problems config auth_manager http params =
     (let url = api_url config @ ''/table/problem'';
          query_params = list_query_params params
      in except_RequestException ''Failed to list problems: '' failure_with_problems
           (list_problems_try config auth_manager http url query_params))"

subsection \<open>get_problem_by_number\<close>

definition get_query_params :: "GetProblemByNumberParams \<Rightarrow> dict" where
  "get_query_params params =
     [(''sysparm_query'', JStr (''number='' @ problem_number params)),
      (''sysparm_limit'', JInt 1),
      (''sysparm_display_value'', JStr ''true''),
      (''sysparm_exclude_reference_link'', JStr ''true'')]"

definition get_problem_by_number_try ::
  "ServerConfig \<Rightarrow> AuthManager \<Rightarrow> transport \<Rightarrow> string \<Rightarrow> dict \<Rightarrow> GetProblemByNumberParams
    \<Rightarrow> json outcome" where
  "get_problem_by_number_try config auth_manager http url query_params params =
     (case get_json config auth_manager http url query_params of
        (evs, Inl e) \<Rightarrow> (evs, Inl e)
      | (evs, Inr data) \<Rightarrow>
          (case value_get_default data ''result'' (JArr []) of
             Inl e \<Rightarrow> (evs, Inl e)
           | Inr result \<Rightarrow>
               if \<not> truthy result
               then (evs, Inr (JObj
                       [(''success'', JBool False),
                        (''message'', JStr (''Problem not found: '' @ problem_number params))]))
               else
                 (case py_first result of
                    Inl e \<Rightarrow> (evs, Inl e)
                  | Inr rec \<Rightarrow>
                      (case problem_detail rec of
                         Inl e \<Rightarrow> (evs, Inl e)
                       | Inr problem \<Rightarrow>
                           (evs, Inr (JObj
                              [(''success'', JBool True),
                               (''message'',
                                  JStr (''Problem '' @ problem_number params @ '' found'')),
                               (''problem'', problem)]))))))"

definition get_problem_by_number ::
  "ServerConfig \<Rightarrow> AuthManager \<Rightarrow> transport \<Rightarrow> GetProblemByNumberParams \<Rightarrow> json outcome" where
  "get_problem_by_number config auth_manager http params =
     (let url = api_url config @ ''/table/problem'';
          query_params = get_query_params params
      in except_RequestException ''Failed to fetch problem: '' failure_plain
           (get_problem_by_number_try config auth_manager http url query_params params))"

subsection \<open>search_problems\<close>

text \<open>The loop over the keywords (lines 221 to 226): an empty keyword is skipped, every
  other one appends two clauses.\<close>

fun or_parts_loop :: "string list \<Rightarrow> string list \<Rightarrow> string list" where
  "or_parts_loop [] or_parts = or_parts"
| "or_parts_loop (kw # kws) or_parts =
     (if kw = [] then or_parts_loop kws or_parts
      else or_parts_loop kws
             (or_parts @ [''short_descriptionLIKE'' @ kw] @ [''descriptionLIKE'' @ kw]))"

definition search_query_params :: "SearchProblemsParams \<Rightarrow> string \<Rightarrow> dict" where
  "search_query_params params sysparm_query =
     [(''sysparm_query'', JStr sysparm_query),
      (''sysparm_limit'', JInt (search_limit params)),
      (''sysparm_offset'', JInt (search_offset params)),
      (''sysparm_display_value'', JStr ''true''),
      (''sysparm_exclude_reference_link'', JStr ''true''),
      (''sysparm_fields'',
         JStr ''sys_id,number,short_description,state,priority,sys_created_on,sys_updated_on'')]"

definition search_problems_try ::
  "ServerConfig \<Rightarrow> AuthManager \<Rightarrow> transport \<Rightarrow> string \<Rightarrow> dict \<Rightarrow> json outcome" where
  "search_problems_try config auth_manager http url query_params =
     (case get_json config auth_manager http url query_params of
        (evs, Inl e) \<Rightarrow> (evs, Inl e)
      | (evs, Inr data) \<Rightarrow>
          (case problems_of problem_compact data of
             Inl e \<Rightarrow> (evs, Inl e)
           | Inr problems \<Rightarrow>
               (evs, Inr (JObj
                  [(''success'', JBool True),
                   (''message'',
                      JStr (''Found '' @ str_nat (length problems) @ '' problems matching keywords'')),
                   (''problems'', JArr problems)]))))"

definition search_problems ::
  "ServerConfig \<Rightarrow> AuthManager \<Rightarrow> transport \<Rightarrow> SearchProblemsParams \<Rightarrow> json outcome" where
  "search_problems config auth_manager http params =
     (let url = api_url config @ ''/table/problem''
      in if search_keywords params = []
         then ([], Inr (JObj [(''success'', JBool True),
                              (''message'', JStr ''No keywords provided''),
                              (''problems'', JArr [])]))
         else
           (let or_parts = or_parts_loop (search_keywords params) []
            in if or_parts = []
               then ([], Inr (JObj [(''success'', JBool True),
                                    (''message'', JStr ''No valid keywords''),
                                    (''problems'', JArr [])]))
               else
                 (let sysparm_query = str_join ''^OR'' or_parts;
                      query_params = search_query_params params sysparm_query
                  in except_RequestException ''Failed to search problems: '' failure_with_problems
                       (search_problems_try config auth_manager http url query_params))))"

text \<open>
  A tool call as the callers write it (\<open>test.py\<close>):
  \<open>get_problem_by_number(config, auth, GetProblemByNumberParams(problem_number=...))\<close>.
  The parameter model is constructed first; when its construction raises, the tool is not
  entered.
\<close>

definition call_list_problems ::
  "ServerConfig \<Rightarrow> AuthManager \<Rightarrow> transport \<Rightarrow> int option \<Rightarrow> int option \<Rightarrow> string option
    \<Rightarrow> string option \<Rightarrow> string option \<Rightarrow> string option \<Rightarrow> json outcome" where
  "call_list_problems config auth_manager http lim off st asg cat q =
     (case new_ListProblemsParams lim off st asg cat q of
        Inl e \<Rightarrow> ([], Inl e)
      | Inr params \<Rightarrow> list_problems config auth_manager http params)"

definition call_get_problem_by_number ::
  "ServerConfig \<Rightarrow> AuthManager \<Rightarrow> transport \<Rightarrow> string option \<Rightarrow> json outcome" where
  "call_get_problem_by_number config auth_manager http num =
     (case new_GetProblemByNumberParams num of
        Inl e \<Rightarrow> ([], Inl e)
      | Inr params \<Rightarrow> get_problem_by_number config auth_manager http params)"

definition call_search_problems ::
  "ServerConfig \<Rightarrow> AuthManager \<Rightarrow> transport \<Rightarrow> string list option \<Rightarrow> int option \<Rightarrow> int option
    \<Rightarrow> json outcome" where
  "call_search_problems config auth_manager http kws lim off =
     (case new_SearchProblemsParams kws lim off of
        Inl e \<Rightarrow> ([], Inl e)
      | Inr params \<Rightarrow> search_problems config auth_manager http params)"

section \<open>Vocabulary of the properties\<close>

text \<open>The one request a tool sends: the table URL, the tool's query parameters, the
  headers of the authentication manager and the configured timeout.\<close>

abbreviation problem_request :: "ServerConfig \<Rightarrow> headers \<Rightarrow> dict \<Rightarrow> request" where
  "problem_request config hdrs qp \<equiv>
     \<lparr>req_url = api_url config @ ''/table/problem'', req_params = qp, req_headers = hdrs,
      req_timeout = timeout config\<rparr>"

text \<open>The upstream API answers a request successfully with a document: a response whose
  status is no 4xx or 5xx and whose body parses to that document.\<close>

definition answers :: "transport \<Rightarrow> request \<Rightarrow> json \<Rightarrow> bool" where
  "answers http req data =
     (case http req of
        Raises e \<Rightarrow> False
      | Responds resp \<Rightarrow>
          \<not> (400 \<le> status_code resp \<and> status_code resp < 600) \<and> body resp = Inr data)"

text \<open>The request fails at the transport: \<open>requests.get\<close> raises a connection error or a
  timeout, the response has a 4xx or 5xx status, or \<open>json()\<close> rejects its body with a JSON
  decode error.\<close>

fun request_fails :: "http_result \<Rightarrow> bool" where
  "request_fails (Raises e) = (exc_class_of e = ConnectionError \<or> exc_class_of e = Timeout)"
| "request_fails (Responds resp) =
     ((400 \<le> status_code resp \<and> status_code resp < 600)
      \<or> (case body resp of Inl e \<Rightarrow> exc_class_of e = JSONDecodeError | Inr v \<Rightarrow> False))"

text \<open>The cause of a failed request, as \<open>str(e)\<close> gives it: the text of the connection error
  or timeout; for a 4xx or 5xx status the text of the \<open>HTTPError\<close>, which names the status, the
  reason and the URL; otherwise the text of the decode error.\<close>

fun failure_cause :: "http_result \<Rightarrow> string" where
  "failure_cause (Raises e) = str_exc e"
| "failure_cause (Responds resp) =
     (if 400 \<le> status_code resp \<and> status_code resp < 500 then
        str_int (status_code resp) @ '' Client Error: '' @ reason resp @ '' for url: ''
          @ resp_url resp
      else if 500 \<le> status_code resp \<and> status_code resp < 600 then
        str_int (status_code resp) @ '' Server Error: '' @ reason resp @ '' for url: ''
          @ resp_url resp
      else (case body resp of Inl e \<Rightarrow> str_exc e | Inr v \<Rightarrow> []))"

text \<open>The output keys of the detail view, the raw field each one is read from, and the
  collapse of a structured value to its \<open>display_value\<close> member.\<close>

definition declared_keys :: "string list" where
  "declared_keys =
     [''sys_id'', ''number'', ''short_description'', ''description'', ''state'', ''priority'',
      ''assigned_to'', ''category'', ''subcategory'', ''created_on'', ''updated_on'']"

definition source_field :: "string \<Rightarrow> string" where
  "source_field k =
     (if k = ''created_on'' then ''sys_created_on''
      else if k = ''updated_on'' then ''sys_updated_on'' else k)"

definition collapse :: "json \<Rightarrow> json" where
  "collapse v = (case v of JObj a \<Rightarrow> py_get a ''display_value'' | _ \<Rightarrow> v)"

text \<open>A keyword that is blank after trimming: nothing but white space.\<close>

definition is_blank :: "string \<Rightarrow> bool" where
  "is_blank s =
     list_all (\<lambda>c. c = CHR '' '' \<or> c = CHR 0x09 \<or> c = CHR 0x0A \<or> c = CHR 0x0D) s"

definition non_blank :: "string list \<Rightarrow> string list" where
  "non_blank kws = filter (\<lambda>kw. \<not> is_blank kw) kws"

text \<open>The two LIKE clauses of one keyword; the clause of one equality filter and of the
  free-text query, for a value that is given and not empty.\<close>

definition like_clauses :: "string \<Rightarrow> string list" where
  "like_clauses kw = [''short_descriptionLIKE'' @ kw, ''descriptionLIKE'' @ kw]"

text \<open>Every \<open>^\<close> of an encoded query begins the separator \<open>^OR\<close>: none is the AND
  separator.\<close>

fun only_or_carets :: "string \<Rightarrow> bool" where
  "only_or_carets [] = True"
| "only_or_carets (c # s) =
     (if c = CHR ''^'' then take 2 s = ''OR'' \<and> only_or_carets s else only_or_carets s)"

definition given :: "string option \<Rightarrow> bool" where
  "given v = (case v of None \<Rightarrow> False | Some s \<Rightarrow> s \<noteq> [])"

definition eq_clause :: "string \<Rightarrow> string option \<Rightarrow> string list" where
  "eq_clause field v =
     (case v of None \<Rightarrow> [] | Some s \<Rightarrow> if s = [] then [] else [field @ ''='' @ s])"

definition text_clause :: "string option \<Rightarrow> string list" where
  "text_clause v =
     (case v of
        None \<Rightarrow> []
      | Some s \<Rightarrow>
          if s = [] then [] else [''short_descriptionLIKE'' @ s @ ''^ORdescriptionLIKE'' @ s])"

definition drop_empty :: "string option \<Rightarrow> string option" where
  "drop_empty v = (if given v then v else None)"

text \<open>The fixtures of \<open>tests/test_problem_tools.py\<close>: a configuration, an authentication
  manager with a fixed header, and two mocked transports: one raises on every request, the
  other replies to every request with one status and one body.\<close>

definition test_config :: ServerConfig where
  "test_config = \<lparr>api_url = ''https://dev12345.service-now.com/api/now'', timeout = 30\<rparr>"

definition test_auth :: AuthManager where
  "test_auth = \<lparr>get_headers = Inr [(''Authorization'', ''Bearer FAKE'')]\<rparr>"

definition raising :: "exc \<Rightarrow> transport" where
  "raising e = (\<lambda>req. Raises e)"

definition replies :: "int \<Rightarrow> exc + json \<Rightarrow> transport" where
  "replies code b = (\<lambda>req. Responds \<lparr>status_code = code, reason = ''reason'',
                                      resp_url = req_url req, body = b\<rparr>)"

text \<open>The record of the tests, a second record with a plain \<open>assigned_to\<close>, a structured
  \<open>priority\<close> and some fields absent, and a record with a structured \<open>category\<close> and most
  fields absent.\<close>

definition test_record :: dict where
  "test_record =
     [(''sys_id'', JStr ''abc123''),
      (''number'', JStr ''PRB0010001''),
      (''short_description'', JStr ''Email outage''),
      (''description'', JStr ''Users cannot send email''),
      (''state'', JStr ''1''),
      (''priority'', JStr ''1 - Critical''),
      (''assigned_to'', JObj [(''display_value'', JStr ''Jane Admin'')]),
      (''category'', JStr ''Software''),
      (''subcategory'', JStr ''Email''),
      (''sys_created_on'', JStr ''2025-06-25 10:00:00''),
      (''sys_updated_on'', JStr ''2025-06-26 09:00:00'')]"

definition second_record :: dict where
  "second_record =
     [(''sys_id'', JStr ''def456''),
      (''number'', JStr ''PRB0010002''),
      (''short_description'', JStr ''Windows update issue''),
      (''state'', JStr ''2''),
      (''priority'', JObj [(''display_value'', JStr ''3 - Moderate'')]),
      (''assigned_to'', JStr ''admin''),
      (''sys_created_on'', JStr ''2025-06-20 10:00:00'')]"

definition partial_record :: dict where
  "partial_record =
     [(''number'', JStr ''PRB0010001''),
      (''assigned_to'', JObj [(''display_value'', JStr ''Jane Admin'')]),
      (''category'', JObj [(''display_value'', JStr ''Software'')])]"

section \<open>Auxiliary facts\<close>

lemma map_of_dict_set:
  "map_of (dict_set d k v) k' = (if k' = k then Some v else map_of d k')"
  by (induction d) auto

lemma or_parts_loop_closed:
  "or_parts_loop kws acc = acc @ concat (map like_clauses (filter (\<lambda>kw. kw \<noteq> []) kws))"
  by (induction kws arbitrary: acc) (simp_all add: like_clauses_def)

lemma length_like_clauses: "length (concat (map like_clauses ks)) = 2 * length ks"
  by (induction ks) (simp_all add: like_clauses_def)

lemma or_parts_loop_empty:
  "(or_parts_loop kws [] = []) = (\<forall>kw \<in> set kws. kw = [])"
  by (auto simp: or_parts_loop_closed like_clauses_def filter_empty_conv)

lemma get_json_answers:
  assumes "get_headers auth_manager = Inr hdrs"
    and "answers http \<lparr>req_url = url, req_params = qp, req_headers = hdrs,
                       req_timeout = timeout config\<rparr> data"
  shows "get_json config auth_manager http url qp =
           ([HttpGet \<lparr>req_url = url, req_params = qp, req_headers = hdrs,
                      req_timeout = timeout config\<rparr>], Inr data)"
  using assms
  by (auto simp: get_json_def answers_def raise_for_status_def response_json_def
           split: http_result.splits)

lemma get_json_fails:
  assumes "get_headers auth_manager = Inr hdrs"
    and "request_fails (http \<lparr>req_url = url, req_params = qp, req_headers = hdrs,
                              req_timeout = timeout config\<rparr>)"
  shows "\<exists>e. is_RequestException e
           \<and> str_exc e = failure_cause (http \<lparr>req_url = url, req_params = qp,
                                               req_headers = hdrs, req_timeout = timeout config\<rparr>)
           \<and> get_json config auth_manager http url qp =
               ([HttpGet \<lparr>req_url = url, req_params = qp, req_headers = hdrs,
                          req_timeout = timeout config\<rparr>], Inl e)"
proof (cases "http \<lparr>req_url = url, req_params = qp, req_headers = hdrs,
                     req_timeout = timeout config\<rparr>")
  case (Raises e)
  with assms(2) have "is_RequestException e"
    by (cases e) auto
  with Raises assms(1) show ?thesis
    by (simp add: get_json_def)
next
  case (Responds resp)
  show ?thesis
  proof (cases "raise_for_status resp")
    case None
    then have s: "\<not> (400 \<le> status_code resp \<and> status_code resp < 600)"
      by (auto simp: raise_for_status_def split: if_splits)
    with Responds assms(2) obtain e where e: "body resp = Inl e" "exc_class_of e = JSONDecodeError"
      by (cases "body resp") auto
    then have "is_RequestException e"
      by (cases e) auto
    moreover from s e have "str_exc e = failure_cause (Responds resp)"
      by auto
    ultimately show ?thesis
      using None Responds assms(1) e by (simp add: get_json_def response_json_def)
  next
    case (Some e)
    then have "is_RequestException e" "str_exc e = failure_cause (Responds resp)"
      by (auto simp: raise_for_status_def split: if_splits)
    with Some Responds assms(1) show ?thesis
      by (simp add: get_json_def)
  qed
qed

lemma fst_get_json:
  "get_headers auth_manager = Inr hdrs \<Longrightarrow>
   fst (get_json config auth_manager http url qp) =
     [HttpGet \<lparr>req_url = url, req_params = qp, req_headers = hdrs, req_timeout = timeout config\<rparr>]"
  by (simp add: get_json_def Let_def split: http_result.splits option.splits)

lemma get_json_requests:
  "ev \<in> set (fst (get_json config auth_manager http url qp)) \<Longrightarrow>
   \<exists>hdrs. ev = HttpGet \<lparr>req_url = url, req_params = qp, req_headers = hdrs,
                        req_timeout = timeout config\<rparr>"
  by (auto simp: get_json_def Let_def split: sum.splits http_result.splits option.splits)

lemma fst_except: "\<exists>logs. fst (except_RequestException prefix env r) = fst r @ logs"
  by (simp add: except_RequestException_def split: sum.splits)

lemma except_requests:
  "HttpGet req \<in> set (fst (except_RequestException prefix env r)) \<Longrightarrow> HttpGet req \<in> set (fst r)"
  by (auto simp: except_RequestException_def split: sum.splits if_splits)

lemma except_Inr [simp]: "except_RequestException prefix env (evs, Inr v) = (evs, Inr v)"
  by (simp add: except_RequestException_def)

lemma except_caught:
  "is_RequestException e \<Longrightarrow>
   except_RequestException prefix env (evs, Inl e) =
     (evs @ [LogError (prefix @ str_exc e)], Inr (env (prefix @ str_exc e)))"
  by (simp add: except_RequestException_def)

lemma fst_list_problems_try:
  "fst (list_problems_try config auth_manager http url qp) =
   fst (get_json config auth_manager http url qp)"
  by (simp add: list_problems_try_def split: prod.splits sum.splits)

lemma fst_search_problems_try:
  "fst (search_problems_try config auth_manager http url qp) =
   fst (get_json config auth_manager http url qp)"
  by (simp add: search_problems_try_def split: prod.splits sum.splits)

lemma fst_get_problem_by_number_try:
  "fst (get_problem_by_number_try config auth_manager http url qp params) =
   fst (get_json config auth_manager http url qp)"
  by (simp add: get_problem_by_number_try_def split: prod.splits sum.splits)

lemma problem_detail_Inl: "problem_detail rec = Inl e \<Longrightarrow> e = no_get"
  by (cases rec) (simp_all add: problem_detail_def Let_def)

lemma no_get_not_request [simp]: "\<not> is_RequestException no_get"
  by (simp add: no_get_def)

lemma collect_records:
  "list_all2 (\<lambda>rec out. view rec = Inr out) recs outs \<Longrightarrow>
   collect view recs acc = Inr (acc @ outs)"
  by (induction recs outs arbitrary: acc rule: list_all2_induct) simp_all

lemma problem_detail_record:
  "\<exists>items. problem_detail (JObj d) = Inr (JObj items)
     \<and> map fst items = declared_keys
     \<and> (\<forall>k \<in> set declared_keys.
           py_get items k =
             (if k = ''assigned_to'' then collapse (py_get d k) else py_get d (source_field k)))"
  by (cases "py_get d ''assigned_to''")
     (simp_all add: problem_detail_def declared_keys_def source_field_def collapse_def py_get_def)

lemma py_get_absent: "map_of d k = None \<Longrightarrow> py_get d k = JNull"
  by (simp add: py_get_def)

lemma collapse_null [simp]: "collapse JNull = JNull"
  by (simp add: collapse_def)

lemma detail_of_records:
  "\<exists>outs. list_all2 (\<lambda>rec out. problem_detail rec = Inr out) (map JObj ds) outs"
proof (induction ds)
  case Nil
  then show ?case by simp
next
  case (Cons d ds)
  then obtain outs where "list_all2 (\<lambda>rec out. problem_detail rec = Inr out) (map JObj ds) outs"
    by blast
  moreover obtain out where "problem_detail (JObj d) = Inr out"
    by (simp add: problem_detail_def Let_def)
  ultimately have "list_all2 (\<lambda>rec out. problem_detail rec = Inr out) (map JObj (d # ds)) (out # outs)"
    by simp
  then show ?case by blast
qed

lemma list_problems_answered:
  assumes h: "get_headers auth_manager = Inr hdrs"
    and a: "answers http (problem_request config hdrs (list_query_params params)) (JObj b)"
    and r: "py_get_default b ''result'' (JArr []) = JArr recs"
    and v: "list_all2 (\<lambda>rec out. problem_detail rec = Inr out) recs outs"
  shows "list_problems config auth_manager http params =
           ([HttpGet (problem_request config hdrs (list_query_params params))],
            Inr (JObj [(''success'', JBool True),
                       (''message'', JStr (''Found '' @ str_nat (length outs) @ '' problems'')),
                       (''problems'', JArr outs)]))"
proof -
  have g: "get_json config auth_manager http (api_url config @ ''/table/problem'')
             (list_query_params params) =
           ([HttpGet (problem_request config hdrs (list_query_params params))], Inr (JObj b))"
    using get_json_answers [OF h a] .
  have p: "problems_of problem_detail (JObj b) = Inr outs"
    using collect_records [OF v, of "[]"] by (simp add: problems_of_def r)
  show ?thesis
    by (simp add: list_problems_def list_problems_try_def g p)
qed

lemma get_problem_by_number_answered:
  assumes h: "get_headers auth_manager = Inr hdrs"
    and a: "answers http (problem_request config hdrs (get_query_params params)) (JObj b)"
    and r: "py_get_default b ''result'' (JArr []) = JArr (rec # rest)"
    and v: "problem_detail rec = Inr out"
  shows "get_problem_by_number config auth_manager http params =
           ([HttpGet (problem_request config hdrs (get_query_params params))],
            Inr (JObj [(''success'', JBool True),
                       (''message'', JStr (''Problem '' @ problem_number params @ '' found'')),
                       (''problem'', out)]))"
proof -
  have g: "get_json config auth_manager http (api_url config @ ''/table/problem'')
             (get_query_params params) =
           ([HttpGet (problem_request config hdrs (get_query_params params))], Inr (JObj b))"
    using get_json_answers [OF h a] .
  show ?thesis
    by (simp add: get_problem_by_number_def get_problem_by_number_try_def g r v)
qed

lemma search_problems_request:
  assumes h: "get_headers auth_manager = Inr hdrs"
    and k: "\<exists>kw \<in> set (search_keywords params). kw \<noteq> []"
  shows "\<exists>logs. fst (search_problems config auth_manager http params) =
           HttpGet (problem_request config hdrs
             (search_query_params params
                (str_join ''^OR''
                   (concat (map like_clauses
                      (filter (\<lambda>kw. kw \<noteq> []) (search_keywords params))))))) # logs"
proof -
  let ?parts = "or_parts_loop (search_keywords params) []"
  let ?qp = "search_query_params params (str_join ''^OR'' ?parts)"
  from k have ne: "search_keywords params \<noteq> []" "?parts \<noteq> []"
    by (auto simp: or_parts_loop_empty)
  then have s: "search_problems config auth_manager http params =
      except_RequestException ''Failed to search problems: '' failure_with_problems
        (search_problems_try config auth_manager http (api_url config @ ''/table/problem'') ?qp)"
    by (simp add: search_problems_def Let_def)
  obtain logs where "fst (search_problems config auth_manager http params) =
      fst (search_problems_try config auth_manager http (api_url config @ ''/table/problem'') ?qp)
        @ logs"
    unfolding s using fst_except by blast
  then show ?thesis
    by (simp add: fst_search_problems_try fst_get_json [OF h] or_parts_loop_closed)
qed

lemma list_problems_fails:
  assumes h: "get_headers auth_manager = Inr hdrs"
    and f: "request_fails (http (problem_request config hdrs (list_query_params params)))"
  shows "list_problems config auth_manager http params =
           ([HttpGet (problem_request config hdrs (list_query_params params)),
             LogError (''Failed to list problems: ''
               @ failure_cause (http (problem_request config hdrs (list_query_params params))))],
            Inr (JObj [(''success'', JBool False),
                       (''message'', JStr (''Failed to list problems: ''
                          @ failure_cause
                              (http (problem_request config hdrs (list_query_params params))))),
                       (''problems'', JArr [])]))"
proof -
  from get_json_fails [of auth_manager hdrs http "api_url config @ ''/table/problem''"
         "list_query_params params" config] h f
  obtain e where e: "is_RequestException e"
    "str_exc e = failure_cause (http (problem_request config hdrs (list_query_params params)))"
    "get_json config auth_manager http (api_url config @ ''/table/problem'')
       (list_query_params params) =
     ([HttpGet (problem_request config hdrs (list_query_params params))], Inl e)"
    by blast
  then show ?thesis
    by (simp add: list_problems_def list_problems_try_def except_caught failure_with_problems_def)
qed

lemma get_problem_by_number_fails:
  assumes h: "get_headers auth_manager = Inr hdrs"
    and f: "request_fails (http (problem_request config hdrs (get_query_params params)))"
  shows "get_problem_by_number config auth_manager http params =
           ([HttpGet (problem_request config hdrs (get_query_params params)),
             LogError (''Failed to fetch problem: ''
               @ failure_cause (http (problem_request config hdrs (get_query_params params))))],
            Inr (JObj [(''success'', JBool False),
                       (''message'', JStr (''Failed to fetch problem: ''
                          @ failure_cause
                              (http (problem_request config hdrs (get_query_params params)))))]))"
proof -
  from get_json_fails [of auth_manager hdrs http "api_url config @ ''/table/problem''"
         "get_query_params params" config] h f
  obtain e where e: "is_RequestException e"
    "str_exc e = failure_cause (http (problem_request config hdrs (get_query_params params)))"
    "get_json config auth_manager http (api_url config @ ''/table/problem'')
       (get_query_params params) =
     ([HttpGet (problem_request config hdrs (get_query_params params))], Inl e)"
    by blast
  then show ?thesis
    by (simp add: get_problem_by_number_def get_problem_by_number_try_def except_caught
          failure_plain_def)
qed

lemma search_problems_fails:
  assumes h: "get_headers auth_manager = Inr hdrs"
    and k: "or_parts_loop (search_keywords params) [] \<noteq> []"
    and f: "request_fails (http (problem_request config hdrs
              (search_query_params params
                 (str_join ''^OR'' (or_parts_loop (search_keywords params) [])))))"
  shows "search_problems config auth_manager http params =
           ([HttpGet (problem_request config hdrs
               (search_query_params params
                  (str_join ''^OR'' (or_parts_loop (search_keywords params) [])))),
             LogError (''Failed to search problems: ''
               @ failure_cause (http (problem_request config hdrs
                   (search_query_params params
                      (str_join ''^OR'' (or_parts_loop (search_keywords params) []))))))],
            Inr (JObj [(''success'', JBool False),
                       (''message'', JStr (''Failed to search problems: ''
                          @ failure_cause (http (problem_request config hdrs
                              (search_query_params params
                                 (str_join ''^OR''
                                    (or_parts_loop (search_keywords params) []))))))),
                       (''problems'', JArr [])]))"
proof -
  let ?qp = "search_query_params params
               (str_join ''^OR'' (or_parts_loop (search_keywords params) []))"
  from k have ne: "search_keywords params \<noteq> []"
    by auto
  from get_json_fails [of auth_manager hdrs http "api_url config @ ''/table/problem''" ?qp config]
       h f
  obtain e where e: "is_RequestException e"
    "str_exc e = failure_cause (http (problem_request config hdrs ?qp))"
    "get_json config auth_manager http (api_url config @ ''/table/problem'') ?qp =
     ([HttpGet (problem_request config hdrs ?qp)], Inl e)"
    by blast
  with k ne show ?thesis
    by (simp add: search_problems_def search_problems_try_def except_caught
          failure_with_problems_def Let_def)
qed

lemma problem_detail_explicit:
  "problem_detail (JObj d) =
     Inr (JObj
       [(''sys_id'', py_get d ''sys_id''),
        (''number'', py_get d ''number''),
        (''short_description'', py_get d ''short_description''),
        (''description'', py_get d ''description''),
        (''state'', py_get d ''state''),
        (''priority'', py_get d ''priority''),
        (''assigned_to'', collapse (py_get d ''assigned_to'')),
        (''category'', py_get d ''category''),
        (''subcategory'', py_get d ''subcategory''),
        (''created_on'', py_get d ''sys_created_on''),
        (''updated_on'', py_get d ''sys_updated_on'')])"
  by (cases "py_get d ''assigned_to''") (simp_all add: problem_detail_def collapse_def)

lemma list_problems_request:
  assumes h: "get_headers auth_manager = Inr hdrs"
  shows "\<exists>logs. fst (list_problems config auth_manager http params) =
           HttpGet (problem_request config hdrs (list_query_params params)) # logs"
proof -
  obtain logs where "fst (list_problems config auth_manager http params) =
      fst (list_problems_try config auth_manager http (api_url config @ ''/table/problem'')
             (list_query_params params)) @ logs"
    unfolding list_problems_def Let_def using fst_except by blast
  then show ?thesis
    by (simp add: fst_list_problems_try fst_get_json [OF h])
qed

lemma get_problem_by_number_request:
  assumes h: "get_headers auth_manager = Inr hdrs"
  shows "\<exists>logs. fst (get_problem_by_number config auth_manager http params) =
           HttpGet (problem_request config hdrs (get_query_params params)) # logs"
proof -
  obtain logs where "fst (get_problem_by_number config auth_manager http params) =
      fst (get_problem_by_number_try config auth_manager http
             (api_url config @ ''/table/problem'') (get_query_params params) params) @ logs"
    unfolding get_problem_by_number_def Let_def using fst_except by blast
  then show ?thesis
    by (simp add: fst_get_problem_by_number_try fst_get_json [OF h])
qed

lemma list_query_params_paging:
  "map_of (list_query_params params) ''sysparm_limit'' = Some (JInt (limit params))"
  "map_of (list_query_params params) ''sysparm_offset'' = Some (JInt (offset params))"
  by (simp_all add: list_query_params_def Let_def map_of_dict_set)

lemma list_filters_clauses:
  "list_filters params =
     eq_clause ''state'' (state params) @ eq_clause ''assigned_to'' (assigned_to params)
       @ eq_clause ''category'' (category params) @ text_clause (query params)"
  by (simp add: list_filters_def eq_clause_def text_clause_def split: option.splits)

lemma list_query_params_query:
  "map_of (list_query_params params) ''sysparm_query'' =
     (if list_filters params = [] then None
      else Some (JStr (str_join ''^'' (list_filters params))))"
  by (simp add: list_query_params_def Let_def map_of_dict_set)

lemma list_query_params_shape:
  "list_query_params params =
     [(''sysparm_limit'', JInt (limit params)),
      (''sysparm_offset'', JInt (offset params)),
      (''sysparm_display_value'', JStr ''true''),
      (''sysparm_exclude_reference_link'', JStr ''true'')]
     @ (if list_filters params = [] then []
        else [(''sysparm_query'', JStr (str_join ''^'' (list_filters params)))])"
  by (simp add: list_query_params_def Let_def)

lemma list_problems_requests:
  assumes "HttpGet req \<in> set (fst (list_problems config auth_manager http params))"
  shows "\<exists>hdrs. req = problem_request config hdrs (list_query_params params)"
proof -
  from assms have "HttpGet req \<in> set (fst (get_json config auth_manager http
      (api_url config @ ''/table/problem'') (list_query_params params)))"
    by (auto simp: list_problems_def Let_def fst_list_problems_try dest: except_requests)
  then show ?thesis
    by (auto dest: get_json_requests)
qed

lemma get_problem_by_number_requests:
  assumes "HttpGet req \<in> set (fst (get_problem_by_number config auth_manager http params))"
  shows "\<exists>hdrs. req = problem_request config hdrs (get_query_params params)"
proof -
  from assms have "HttpGet req \<in> set (fst (get_json config auth_manager http
      (api_url config @ ''/table/problem'') (get_query_params params)))"
    by (auto simp: get_problem_by_number_def Let_def fst_get_problem_by_number_try
             dest: except_requests)
  then show ?thesis
    by (auto dest: get_json_requests)
qed

lemma search_problems_requests:
  assumes "HttpGet req \<in> set (fst (search_problems config auth_manager http params))"
  shows "\<exists>hdrs. req = problem_request config hdrs
           (search_query_params params
              (str_join ''^OR'' (or_parts_loop (search_keywords params) [])))"
proof -
  from assms have "HttpGet req \<in> set (fst (get_json config auth_manager http
      (api_url config @ ''/table/problem'')
      (search_query_params params
              (str_join ''^OR'' (or_parts_loop (search_keywords params) [])))))"
    by (auto simp: search_problems_def Let_def fst_search_problems_try
             dest: except_requests split: if_splits)
  then show ?thesis
    by (auto dest: get_json_requests)
qed

lemma list_filters_drop_empty:
  "list_filters (params\<lparr>state := drop_empty (state params),
                        assigned_to := drop_empty (assigned_to params),
                        category := drop_empty (category params),
                        query := drop_empty (query params)\<rparr>) = list_filters params"
  by (simp add: list_filters_def drop_empty_def given_def split: option.splits)

lemma list_problems_cong:
  "list_query_params p = list_query_params p' \<Longrightarrow>
   list_problems config auth_manager http p = list_problems config auth_manager http p'"
  by (simp add: list_problems_def)

lemma only_or_carets_append:
  "CHR ''^'' \<notin> set a \<Longrightarrow> only_or_carets (a @ b) = only_or_carets b"
  by (induction a) auto

lemma only_or_carets_join:
  "\<forall>p \<in> set ps. CHR ''^'' \<notin> set p \<Longrightarrow> only_or_carets (str_join ''^OR'' ps)"
proof (induction "''^OR''" ps rule: str_join.induct)
  case 1
  then show ?case by simp
next
  case (2 p)
  then show ?case
    using only_or_carets_append [of p "[]"] by simp
next
  case (3 p q ps)
  then have "only_or_carets (str_join ''^OR'' (q # ps))"
    by simp
  moreover from 3 have "CHR ''^'' \<notin> set p"
    by simp
  ultimately show ?case
    by (simp add: only_or_carets_append)
qed

lemma like_clauses_no_caret:
  "\<forall>kw \<in> set kws. CHR ''^'' \<notin> set kw \<Longrightarrow>
   \<forall>p \<in> set (concat (map like_clauses (filter (\<lambda>kw. kw \<noteq> []) kws))). CHR ''^'' \<notin> set p"
  by (auto simp: like_clauses_def)

section \<open>The claims\<close>

subsection \<open>C1: the detail view of a record\<close>

text \<open>
  C1, as amended. Every record of a successful \<open>list_problems\<close> or
  \<open>get_problem_by_number\<close> response is turned into an object with exactly the eleven
  declared keys, in the declared order. \<open>assigned_to\<close> given as an object is collapsed to
  its \<open>display_value\<close> member; every other field is the raw value unchanged, whatever its
  shape (\<open>created_on\<close> and \<open>updated_on\<close> are read from \<open>sys_created_on\<close> and
  \<open>sys_updated_on\<close>); a field absent from the raw record is null in the output.
\<close>

theorem detail_view_of_every_record:
  "(\<exists>items. problem_detail (JObj d) = Inr (JObj items)
      \<and> map fst items = declared_keys
      \<and> (\<forall>k \<in> set declared_keys.
            py_get items k =
              (if k = ''assigned_to'' then collapse (py_get d k) else py_get d (source_field k)))
      \<and> (\<forall>k \<in> set declared_keys. map_of d (source_field k) = None \<longrightarrow> py_get items k = JNull))
   \<and> (get_headers auth_manager = Inr hdrs \<longrightarrow>
        answers http (problem_request config hdrs (list_query_params lparams)) (JObj b) \<longrightarrow>
        py_get_default b ''result'' (JArr []) = JArr (map JObj ds) \<longrightarrow>
        (\<exists>outs. list_all2 (\<lambda>d out. problem_detail (JObj d) = Inr out) ds outs \<and>
           list_problems config auth_manager http lparams =
             ([HttpGet (problem_request config hdrs (list_query_params lparams))],
              Inr (JObj [(''success'', JBool True),
                         (''message'', JStr (''Found '' @ str_nat (length ds) @ '' problems'')),
                         (''problems'', JArr outs)]))))
   \<and> (get_headers auth_manager = Inr hdrs \<longrightarrow>
        answers http (problem_request config hdrs (get_query_params gparams)) (JObj b) \<longrightarrow>
        py_get_default b ''result'' (JArr []) = JArr (JObj d # rest) \<longrightarrow>
        (\<exists>out. problem_detail (JObj d) = Inr out \<and>
           get_problem_by_number config auth_manager http gparams =
             ([HttpGet (problem_request config hdrs (get_query_params gparams))],
              Inr (JObj [(''success'', JBool True),
                         (''message'', JStr (''Problem '' @ problem_number gparams @ '' found'')),
                         (''problem'', out)]))))"
proof (intro conjI impI)
  obtain items where i: "problem_detail (JObj d) = Inr (JObj items)"
      "map fst items = declared_keys"
      "\<forall>k \<in> set declared_keys.
            py_get items k =
              (if k = ''assigned_to'' then collapse (py_get d k) else py_get d (source_field k))"
    using problem_detail_record by blast
  have "\<forall>k \<in> set declared_keys. map_of d (source_field k) = None \<longrightarrow> py_get items k = JNull"
  proof (intro ballI impI)
    fix k assume k: "k \<in> set declared_keys" and n: "map_of d (source_field k) = None"
    show "py_get items k = JNull"
    proof (cases "k = ''assigned_to''")
      case True
      with n have "py_get d k = JNull" by (simp add: source_field_def py_get_absent)
      with True i(3) k show ?thesis by simp
    next
      case False
      with i(3) k n show ?thesis by (simp add: py_get_absent)
    qed
  qed
  with i show "\<exists>items. problem_detail (JObj d) = Inr (JObj items)
      \<and> map fst items = declared_keys
      \<and> (\<forall>k \<in> set declared_keys.
            py_get items k =
              (if k = ''assigned_to'' then collapse (py_get d k) else py_get d (source_field k)))
      \<and> (\<forall>k \<in> set declared_keys. map_of d (source_field k) = None \<longrightarrow> py_get items k = JNull)"
    by blast
next
  assume h: "get_headers auth_manager = Inr hdrs"
    and a: "answers http (problem_request config hdrs (list_query_params lparams)) (JObj b)"
    and r: "py_get_default b ''result'' (JArr []) = JArr (map JObj ds)"
  obtain outs where v: "list_all2 (\<lambda>rec out. problem_detail rec = Inr out) (map JObj ds) outs"
    using detail_of_records by blast
  then have l: "length outs = length ds"
    by (auto dest: list_all2_lengthD)
  from v have v': "list_all2 (\<lambda>d out. problem_detail (JObj d) = Inr out) ds outs"
    by (simp add: list_all2_map1)
  from list_problems_answered [OF h a r v] l v'
  show "\<exists>outs. list_all2 (\<lambda>d out. problem_detail (JObj d) = Inr out) ds outs \<and>
           list_problems config auth_manager http lparams =
             ([HttpGet (problem_request config hdrs (list_query_params lparams))],
              Inr (JObj [(''success'', JBool True),
                         (''message'', JStr (''Found '' @ str_nat (length ds) @ '' problems'')),
                         (''problems'', JArr outs)]))"
    by auto
next
  assume h: "get_headers auth_manager = Inr hdrs"
    and a: "answers http (problem_request config hdrs (get_query_params gparams)) (JObj b)"
    and r: "py_get_default b ''result'' (JArr []) = JArr (JObj d # rest)"
  obtain out where v: "problem_detail (JObj d) = Inr out"
    by (simp add: problem_detail_def Let_def)
  from get_problem_by_number_answered [OF h a r v] v
  show "\<exists>out. problem_detail (JObj d) = Inr out \<and>
           get_problem_by_number config auth_manager http gparams =
             ([HttpGet (problem_request config hdrs (get_query_params gparams))],
              Inr (JObj [(''success'', JBool True),
                         (''message'', JStr (''Problem '' @ problem_number gparams @ '' found'')),
                         (''problem'', out)]))"
    by blast
qed

theorem detail_view_of_every_record_witness:
  "list_problems test_config test_auth
     (replies 200 (Inr (JObj [(''result'', JArr [JObj partial_record])])))
     \<lparr>limit = 5, offset = 0, state = None, assigned_to = None, category = None,
      query = Some ''email''\<rparr> =
     ([HttpGet (problem_request test_config [(''Authorization'', ''Bearer FAKE'')]
         [(''sysparm_limit'', JInt 5), (''sysparm_offset'', JInt 0),
          (''sysparm_display_value'', JStr ''true''),
          (''sysparm_exclude_reference_link'', JStr ''true''),
          (''sysparm_query'', JStr ''short_descriptionLIKEemail^ORdescriptionLIKEemail'')])],
      Inr (JObj [(''success'', JBool True),
                 (''message'', JStr ''Found 1 problems''),
                 (''problems'', JArr [JObj
                    [(''sys_id'', JNull), (''number'', JStr ''PRB0010001''),
                     (''short_description'', JNull), (''description'', JNull),
                     (''state'', JNull), (''priority'', JNull),
                     (''assigned_to'', JStr ''Jane Admin''),
                     (''category'', JObj [(''display_value'', JStr ''Software'')]),
                     (''subcategory'', JNull), (''created_on'', JNull),
                     (''updated_on'', JNull)]])]))
   \<and> snd (get_problem_by_number test_config test_auth
            (replies 200 (Inr (JObj [(''result'', JArr [JObj partial_record])])))
            \<lparr>problem_number = ''PRB0010001''\<rparr>) =
       Inr (JObj [(''success'', JBool True),
                  (''message'', JStr ''Problem PRB0010001 found''),
                  (''problem'', JObj
                    [(''sys_id'', JNull), (''number'', JStr ''PRB0010001''),
                     (''short_description'', JNull), (''description'', JNull),
                     (''state'', JNull), (''priority'', JNull),
                     (''assigned_to'', JStr ''Jane Admin''),
                     (''category'', JObj [(''display_value'', JStr ''Software'')]),
                     (''subcategory'', JNull), (''created_on'', JNull),
                     (''updated_on'', JNull)])])
   \<and> map_of partial_record (source_field ''created_on'') = None
   \<and> ''created_on'' \<in> set declared_keys"
proof -
  let ?lp = "\<lparr>limit = 5, offset = 0, state = None, assigned_to = None, category = None,
              query = Some ''email''\<rparr>"
  let ?gp = "\<lparr>problem_number = ''PRB0010001''\<rparr>"
  let ?b = "[(''result'', JArr [JObj partial_record])]"
  let ?hdrs = "[(''Authorization'', ''Bearer FAKE'')]"
  have h: "get_headers test_auth = Inr ?hdrs"
    by (simp add: test_auth_def)
  have al: "answers (replies 200 (Inr (JObj ?b)))
              (problem_request test_config ?hdrs (list_query_params ?lp)) (JObj ?b)"
    by (simp add: answers_def replies_def)
  have ag: "answers (replies 200 (Inr (JObj ?b)))
              (problem_request test_config ?hdrs (get_query_params ?gp)) (JObj ?b)"
    by (simp add: answers_def replies_def)
  have rl: "py_get_default ?b ''result'' (JArr []) = JArr (map JObj [partial_record])"
    by (simp add: py_get_default_def)
  have rg: "py_get_default ?b ''result'' (JArr []) = JArr (JObj partial_record # [])"
    by (simp add: py_get_default_def)
  have d: "problem_detail (JObj partial_record) =
           Inr (JObj [(''sys_id'', JNull), (''number'', JStr ''PRB0010001''),
                     (''short_description'', JNull), (''description'', JNull),
                     (''state'', JNull), (''priority'', JNull),
                     (''assigned_to'', JStr ''Jane Admin''),
                     (''category'', JObj [(''display_value'', JStr ''Software'')]),
                     (''subcategory'', JNull), (''created_on'', JNull),
                     (''updated_on'', JNull)])"
    by (simp add: problem_detail_def partial_record_def py_get_def)
  have q: "list_query_params ?lp =
             [(''sysparm_limit'', JInt 5), (''sysparm_offset'', JInt 0),
              (''sysparm_display_value'', JStr ''true''),
              (''sysparm_exclude_reference_link'', JStr ''true''),
              (''sysparm_query'', JStr ''short_descriptionLIKEemail^ORdescriptionLIKEemail'')]"
    by (simp add: list_query_params_def list_filters_def)
  have n: "str_nat (Suc 0) = ''1''"
    by (simp add: str_nat.simps digit_char_def)
  have k: "map_of partial_record (source_field ''created_on'') = None"
          "''created_on'' \<in> set declared_keys"
    by (simp_all add: partial_record_def source_field_def declared_keys_def)
  note t = detail_view_of_every_record [of partial_record test_auth ?hdrs
             "replies 200 (Inr (JObj ?b))" test_config ?lp ?b "[partial_record]" ?gp "[]"]
  from t h al rl d q n
  have 1: "list_problems test_config test_auth (replies 200 (Inr (JObj ?b))) ?lp =
     ([HttpGet (problem_request test_config ?hdrs
         [(''sysparm_limit'', JInt 5), (''sysparm_offset'', JInt 0),
          (''sysparm_display_value'', JStr ''true''),
          (''sysparm_exclude_reference_link'', JStr ''true''),
          (''sysparm_query'', JStr ''short_descriptionLIKEemail^ORdescriptionLIKEemail'')])],
      Inr (JObj [(''success'', JBool True),
                 (''message'', JStr ''Found 1 problems''),
                 (''problems'', JArr [JObj
                    [(''sys_id'', JNull), (''number'', JStr ''PRB0010001''),
                     (''short_description'', JNull), (''description'', JNull),
                     (''state'', JNull), (''priority'', JNull),
                     (''assigned_to'', JStr ''Jane Admin''),
                     (''category'', JObj [(''display_value'', JStr ''Software'')]),
                     (''subcategory'', JNull), (''created_on'', JNull),
                     (''updated_on'', JNull)]])]))"
    by (auto simp: list_all2_Cons1)
  from t h ag rg d
  have 2: "snd (get_problem_by_number test_config test_auth (replies 200 (Inr (JObj ?b))) ?gp) =
       Inr (JObj [(''success'', JBool True),
                  (''message'', JStr ''Problem PRB0010001 found''),
                  (''problem'', JObj
                    [(''sys_id'', JNull), (''number'', JStr ''PRB0010001''),
                     (''short_description'', JNull), (''description'', JNull),
                     (''state'', JNull), (''priority'', JNull),
                     (''assigned_to'', JStr ''Jane Admin''),
                     (''category'', JObj [(''display_value'', JStr ''Software'')]),
                     (''subcategory'', JNull), (''created_on'', JNull),
                     (''updated_on'', JNull)])])"
    by auto
  from 1 2 k show ?thesis by blast
qed

text \<open>
  C1 as stated fails: a structured \<open>category\<close> is not collapsed to its \<open>display_value\<close>
  member; it reaches the output as the object it was.
\<close>

theorem detail_view_collapse_counterexample:
  "snd (list_problems test_config test_auth
          (replies 200 (Inr (JObj [(''result'', JArr [JObj partial_record])])))
          \<lparr>limit = 10, offset = 0, state = None, assigned_to = None, category = None,
           query = None\<rparr>) =
     Inr (JObj [(''success'', JBool True),
                (''message'', JStr ''Found 1 problems''),
                (''problems'', JArr [JObj
                   [(''sys_id'', JNull), (''number'', JStr ''PRB0010001''),
                    (''short_description'', JNull), (''description'', JNull),
                    (''state'', JNull), (''priority'', JNull),
                    (''assigned_to'', JStr ''Jane Admin''),
                    (''category'', JObj [(''display_value'', JStr ''Software'')]),
                    (''subcategory'', JNull), (''created_on'', JNull),
                    (''updated_on'', JNull)]])])
   \<and> py_get partial_record ''category'' = JObj [(''display_value'', JStr ''Software'')]
   \<and> collapse (py_get partial_record ''category'') = JStr ''Software''"
  by (simp add: list_problems_def list_problems_try_def list_query_params_def list_filters_def
        get_json_def test_auth_def test_config_def replies_def raise_for_status_def
        response_json_def problems_of_def py_get_default_def problem_detail_def
        partial_record_def py_get_def collapse_def str_nat.simps digit_char_def)

subsection \<open>C2: lookup by number, found or not found\<close>

text \<open>
  C2. When the upstream API answers the lookup successfully with an empty result array,
  \<open>get_problem_by_number\<close> returns the envelope with \<open>success = false\<close> and the message
  \<open>Problem not found: <number>\<close>; when the array is not empty and its first element is a
  record, it returns \<open>success = true\<close> with that record in the detail view: the eleven
  output keys, each with the raw value of its field, \<open>assigned_to\<close> collapsed to its
  \<open>display_value\<close> when it is an object, \<open>created_on\<close> and \<open>updated_on\<close> read from
  \<open>sys_created_on\<close> and \<open>sys_updated_on\<close>. The records after the first are ignored.
\<close>

theorem get_problem_by_number_found_or_not:
  assumes h: "get_headers auth_manager = Inr hdrs"
    and a: "answers http (problem_request config hdrs (get_query_params params)) (JObj b)"
    and r: "py_get_default b ''result'' (JArr []) = JArr recs"
  shows "(recs = [] \<longrightarrow>
            get_problem_by_number config auth_manager http params =
              ([HttpGet (problem_request config hdrs (get_query_params params))],
               Inr (JObj [(''success'', JBool False),
                          (''message'', JStr (''Problem not found: '' @ problem_number params))])))
       \<and> (\<forall>d rest. recs = JObj d # rest \<longrightarrow>
            get_problem_by_number config auth_manager http params =
              ([HttpGet (problem_request config hdrs (get_query_params params))],
               Inr (JObj [(''success'', JBool True),
                          (''message'', JStr (''Problem '' @ problem_number params @ '' found'')),
                          (''problem'', JObj
                             [(''sys_id'', py_get d ''sys_id''),
                              (''number'', py_get d ''number''),
                              (''short_description'', py_get d ''short_description''),
                              (''description'', py_get d ''description''),
                              (''state'', py_get d ''state''),
                              (''priority'', py_get d ''priority''),
                              (''assigned_to'', collapse (py_get d ''assigned_to'')),
                              (''category'', py_get d ''category''),
                              (''subcategory'', py_get d ''subcategory''),
                              (''created_on'', py_get d ''sys_created_on''),
                              (''updated_on'', py_get d ''sys_updated_on'')])])))"
proof (intro conjI allI impI)
  have g: "get_json config auth_manager http (api_url config @ ''/table/problem'')
             (get_query_params params) =
           ([HttpGet (problem_request config hdrs (get_query_params params))], Inr (JObj b))"
    using get_json_answers [OF h a] .
  assume "recs = []"
  then show "get_problem_by_number config auth_manager http params =
              ([HttpGet (problem_request config hdrs (get_query_params params))],
               Inr (JObj [(''success'', JBool False),
                          (''message'', JStr (''Problem not found: '' @ problem_number params))]))"
    by (simp add: get_problem_by_number_def get_problem_by_number_try_def g r)
next
  fix d rest
  assume "recs = JObj d # rest"
  with r have r': "py_get_default b ''result'' (JArr []) = JArr (JObj d # rest)"
    by simp
  from get_problem_by_number_answered [OF h a r' problem_detail_explicit]
  show "get_problem_by_number config auth_manager http params =
              ([HttpGet (problem_request config hdrs (get_query_params params))],
               Inr (JObj [(''success'', JBool True),
                          (''message'', JStr (''Problem '' @ problem_number params @ '' found'')),
                          (''problem'', JObj
                             [(''sys_id'', py_get d ''sys_id''),
                              (''number'', py_get d ''number''),
                              (''short_description'', py_get d ''short_description''),
                              (''description'', py_get d ''description''),
                              (''state'', py_get d ''state''),
                              (''priority'', py_get d ''priority''),
                              (''assigned_to'', collapse (py_get d ''assigned_to'')),
                              (''category'', py_get d ''category''),
                              (''subcategory'', py_get d ''subcategory''),
                              (''created_on'', py_get d ''sys_created_on''),
                              (''updated_on'', py_get d ''sys_updated_on'')])]))" .
qed

theorem get_problem_by_number_found_or_not_witness:
  "snd (get_problem_by_number test_config test_auth
          (replies 200 (Inr (JObj [(''result'', JArr [])])))
          \<lparr>problem_number = ''PRB0099999''\<rparr>) =
     Inr (JObj [(''success'', JBool False),
                (''message'', JStr ''Problem not found: PRB0099999'')])
   \<and> snd (get_problem_by_number test_config test_auth
            (replies 200 (Inr (JObj [(''result'', JArr [JObj test_record, JObj second_record])])))
            \<lparr>problem_number = ''PRB0010001''\<rparr>) =
       Inr (JObj [(''success'', JBool True),
                  (''message'', JStr ''Problem PRB0010001 found''),
                  (''problem'',
                     JObj [(''sys_id'', JStr ''abc123''),
                           (''number'', JStr ''PRB0010001''),
                           (''short_description'', JStr ''Email outage''),
                           (''description'', JStr ''Users cannot send email''),
                           (''state'', JStr ''1''),
                           (''priority'', JStr ''1 - Critical''),
                           (''assigned_to'', JStr ''Jane Admin''),
                           (''category'', JStr ''Software''),
                           (''subcategory'', JStr ''Email''),
                           (''created_on'', JStr ''2025-06-25 10:00:00''),
                           (''updated_on'', JStr ''2025-06-26 09:00:00'')])])
   \<and> snd (get_problem_by_number test_config test_auth
            (replies 200 (Inr (JObj [(''result'', JArr [JObj second_record])])))
            \<lparr>problem_number = ''PRB0010002''\<rparr>) =
       Inr (JObj [(''success'', JBool True),
                  (''message'', JStr ''Problem PRB0010002 found''),
                  (''problem'',
                     JObj [(''sys_id'', JStr ''def456''),
                           (''number'', JStr ''PRB0010002''),
                           (''short_description'', JStr ''Windows update issue''),
                           (''description'', JNull),
                           (''state'', JStr ''2''),
                           (''priority'', JObj [(''display_value'', JStr ''3 - Moderate'')]),
                           (''assigned_to'', JStr ''admin''),
                           (''category'', JNull),
                           (''subcategory'', JNull),
                           (''created_on'', JStr ''2025-06-20 10:00:00''),
                           (''updated_on'', JNull)])])"
proof -
  let ?hdrs = "[(''Authorization'', ''Bearer FAKE'')]"
  let ?none = "[(''result'', JArr [])]"
  let ?two = "[(''result'', JArr [JObj test_record, JObj second_record])]"
  let ?one = "[(''result'', JArr [JObj second_record])]"
  have h: "get_headers test_auth = Inr ?hdrs"
    by (simp add: test_auth_def)
  have a0: "answers (replies 200 (Inr (JObj ?none)))
        (problem_request test_config ?hdrs (get_query_params \<lparr>problem_number = ''PRB0099999''\<rparr>))
        (JObj ?none)"
    by (simp add: answers_def replies_def)
  have r0: "py_get_default ?none ''result'' (JArr []) = JArr []"
    by (simp add: py_get_default_def)
  have a2: "answers (replies 200 (Inr (JObj ?two)))
        (problem_request test_config ?hdrs (get_query_params \<lparr>problem_number = ''PRB0010001''\<rparr>))
        (JObj ?two)"
    by (simp add: answers_def replies_def)
  have r2: "py_get_default ?two ''result'' (JArr []) = JArr [JObj test_record, JObj second_record]"
    by (simp add: py_get_default_def)
  have a1: "answers (replies 200 (Inr (JObj ?one)))
        (problem_request test_config ?hdrs (get_query_params \<lparr>problem_number = ''PRB0010002''\<rparr>))
        (JObj ?one)"
    by (simp add: answers_def replies_def)
  have r1: "py_get_default ?one ''result'' (JArr []) = JArr [JObj second_record]"
    by (simp add: py_get_default_def)
  from get_problem_by_number_found_or_not [OF h a0 r0]
  have 0: "snd (get_problem_by_number test_config test_auth (replies 200 (Inr (JObj ?none)))
                  \<lparr>problem_number = ''PRB0099999''\<rparr>) =
           Inr (JObj [(''success'', JBool False),
                      (''message'', JStr ''Problem not found: PRB0099999'')])"
    by simp
  from get_problem_by_number_found_or_not [OF h a2 r2]
  have 2: "snd (get_problem_by_number test_config test_auth (replies 200 (Inr (JObj ?two)))
                  \<lparr>problem_number = ''PRB0010001''\<rparr>) =
       Inr (JObj [(''success'', JBool True),
                  (''message'', JStr ''Problem PRB0010001 found''),
                  (''problem'',
                     JObj [(''sys_id'', JStr ''abc123''),
                           (''number'', JStr ''PRB0010001''),
                           (''short_description'', JStr ''Email outage''),
                           (''description'', JStr ''Users cannot send email''),
                           (''state'', JStr ''1''),
                           (''priority'', JStr ''1 - Critical''),
                           (''assigned_to'', JStr ''Jane Admin''),
                           (''category'', JStr ''Software''),
                           (''subcategory'', JStr ''Email''),
                           (''created_on'', JStr ''2025-06-25 10:00:00''),
                           (''updated_on'', JStr ''2025-06-26 09:00:00'')])])"
    by (simp add: test_record_def py_get_def collapse_def)
  from get_problem_by_number_found_or_not [OF h a1 r1]
  have 1: "snd (get_problem_by_number test_config test_auth (replies 200 (Inr (JObj ?one)))
                  \<lparr>problem_number = ''PRB0010002''\<rparr>) =
       Inr (JObj [(''success'', JBool True),
                  (''message'', JStr ''Problem PRB0010002 found''),
                  (''problem'',
                     JObj [(''sys_id'', JStr ''def456''),
                           (''number'', JStr ''PRB0010002''),
                           (''short_description'', JStr ''Windows update issue''),
                           (''description'', JNull),
                           (''state'', JStr ''2''),
                           (''priority'', JObj [(''display_value'', JStr ''3 - Moderate'')]),
                           (''assigned_to'', JStr ''admin''),
                           (''category'', JNull),
                           (''subcategory'', JNull),
                           (''created_on'', JStr ''2025-06-20 10:00:00''),
                           (''updated_on'', JNull)])])"
    by (simp add: second_record_def py_get_def collapse_def)
  from 0 2 1 show ?thesis
    by blast
qed

subsection \<open>C3: the keyword query\<close>

text \<open>
  C3, as amended. For every keyword list with a keyword that is not the empty string, the
  \<open>sysparm_query\<close> that \<open>search_problems\<close> sends is the \<open>^OR\<close>-join of exactly two LIKE
  clauses per non-empty keyword, one on \<open>short_description\<close> and one on \<open>description\<close>,
  in keyword order: 2*K clauses minus two for each empty keyword. A keyword of white space
  only is not skipped. When no keyword contains \<open>^\<close>, every \<open>^\<close> of the query belongs to
  an \<open>^OR\<close> separator.
\<close>

theorem search_query_is_or_chain:
  assumes "get_headers auth_manager = Inr hdrs"
    and "\<exists>kw \<in> set (search_keywords params). kw \<noteq> []"
  shows "\<exists>clauses logs.
           clauses = concat (map (\<lambda>kw. [''short_descriptionLIKE'' @ kw, ''descriptionLIKE'' @ kw])
                              (filter (\<lambda>kw. kw \<noteq> []) (search_keywords params)))
         \<and> or_parts_loop (search_keywords params) [] = clauses
         \<and> length clauses = 2 * length (filter (\<lambda>kw. kw \<noteq> []) (search_keywords params))
         \<and> fst (search_problems config auth_manager http params) =
             HttpGet (problem_request config hdrs
               (search_query_params params (str_join ''^OR'' clauses))) # logs
         \<and> map_of (search_query_params params (str_join ''^OR'' clauses)) ''sysparm_query'' =
             Some (JStr (str_join ''^OR'' clauses))
         \<and> ((\<forall>kw \<in> set (search_keywords params). CHR ''^'' \<notin> set kw) \<longrightarrow>
              only_or_carets (str_join ''^OR'' clauses))"
proof -
  let ?clauses = "concat (map like_clauses (filter (\<lambda>kw. kw \<noteq> []) (search_keywords params)))"
  have c: "?clauses =
           concat (map (\<lambda>kw. [''short_descriptionLIKE'' @ kw, ''descriptionLIKE'' @ kw])
                              (filter (\<lambda>kw. kw \<noteq> []) (search_keywords params)))"
    by (simp add: like_clauses_def [abs_def])
  from search_problems_request [OF assms, of config http] obtain logs where
    "fst (search_problems config auth_manager http params) =
       HttpGet (problem_request config hdrs
         (search_query_params params (str_join ''^OR'' ?clauses))) # logs"
    by blast
  moreover have "or_parts_loop (search_keywords params) [] = ?clauses"
    by (simp add: or_parts_loop_closed)
  moreover have "length ?clauses = 2 * length (filter (\<lambda>kw. kw \<noteq> []) (search_keywords params))"
    by (rule length_like_clauses)
  moreover have "(\<forall>kw \<in> set (search_keywords params). CHR ''^'' \<notin> set kw) \<longrightarrow>
              only_or_carets (str_join ''^OR'' ?clauses)"
    using like_clauses_no_caret only_or_carets_join by blast
  ultimately show ?thesis
    unfolding c by (simp add: search_query_params_def)
qed

theorem search_query_is_or_chain_witness:
  "(\<exists>logs.
      fst (search_problems test_config test_auth
             (replies 200 (Inr (JObj [(''result'', JArr [])])))
             \<lparr>search_keywords = [''Windows'', [], ''update''], search_limit = 3,
              search_offset = 0\<rparr>) =
        HttpGet (problem_request test_config [(''Authorization'', ''Bearer FAKE'')]
          [(''sysparm_query'',
              JStr (''short_descriptionLIKEWindows^ORdescriptionLIKEWindows'' @
                    ''^ORshort_descriptionLIKEupdate^ORdescriptionLIKEupdate'')),
           (''sysparm_limit'', JInt 3),
           (''sysparm_offset'', JInt 0),
           (''sysparm_display_value'', JStr ''true''),
           (''sysparm_exclude_reference_link'', JStr ''true''),
           (''sysparm_fields'',
              JStr ''sys_id,number,short_description,state,priority,sys_created_on,sys_updated_on'')])
          # logs)
   \<and> length (or_parts_loop [''Windows'', [], ''update''] []) = 4
   \<and> only_or_carets (''short_descriptionLIKEWindows^ORdescriptionLIKEWindows'' @
                      ''^ORshort_descriptionLIKEupdate^ORdescriptionLIKEupdate'')"
proof -
  let ?p = "\<lparr>search_keywords = [''Windows'', [], ''update''], search_limit = 3,
            search_offset = 0\<rparr>"
  have h: "get_headers test_auth = Inr [(''Authorization'', ''Bearer FAKE'')]"
    by (simp add: test_auth_def)
  have k: "\<exists>kw \<in> set (search_keywords ?p). kw \<noteq> []"
    by simp
  have n: "\<forall>kw \<in> set (search_keywords ?p). CHR ''^'' \<notin> set kw"
    by simp
  from search_query_is_or_chain
         [OF h k, of test_config "replies 200 (Inr (JObj [(''result'', JArr [])]))"] n
  show ?thesis
    by (auto simp: search_query_params_def)
qed

text \<open>
  C3 as stated fails: a keyword of one space is blank, yet it contributes its two clauses.
  The keywords \<open>[" ", "disk"]\<close> give four clauses where the claim counts two.
\<close>

theorem search_blank_keyword_counterexample:
  "is_blank '' ''
   \<and> or_parts_loop ['' '', ''disk''] [] =
       [''short_descriptionLIKE '', ''descriptionLIKE '',
        ''short_descriptionLIKEdisk'', ''descriptionLIKEdisk'']
   \<and> length (or_parts_loop ['' '', ''disk''] []) \<noteq>
       2 * length (non_blank ['' '', ''disk''])
   \<and> fst (search_problems test_config test_auth (replies 200 (Inr (JObj [(''result'', JArr [])])))
            \<lparr>search_keywords = ['' '', ''disk''], search_limit = 10, search_offset = 0\<rparr>) =
       [HttpGet (problem_request test_config [(''Authorization'', ''Bearer FAKE'')]
          [(''sysparm_query'',
              JStr (''short_descriptionLIKE ^ORdescriptionLIKE '' @
                    ''^ORshort_descriptionLIKEdisk^ORdescriptionLIKEdisk'')),
           (''sysparm_limit'', JInt 10),
           (''sysparm_offset'', JInt 0),
           (''sysparm_display_value'', JStr ''true''),
           (''sysparm_exclude_reference_link'', JStr ''true''),
           (''sysparm_fields'',
              JStr ''sys_id,number,short_description,state,priority,sys_created_on,sys_updated_on'')])]"
  by (simp add: is_blank_def non_blank_def search_problems_def search_problems_try_def
        get_json_def test_auth_def test_config_def replies_def raise_for_status_def
        response_json_def problems_of_def py_get_default_def search_query_params_def)

subsection \<open>C4: failures of the request\<close>

text \<open>
  C4, as amended. In each of the three tools, when \<open>requests.get\<close> raises a connection
  error or a timeout, when the response has a 4xx or 5xx status, and when \<open>json()\<close> rejects
  the body with a JSON decode error, the failure is caught inside the tool, logged, and
  returned as the envelope \<open>{success: false, message: "Failed to <action>: <cause>"}\<close>
  (with an empty \<open>problems\<close> list in \<open>list_problems\<close> and \<open>search_problems\<close>), where
  \<open><cause>\<close> is the text of the exception; the actions are \<open>list problems\<close>,
  \<open>fetch problem\<close> and \<open>search problems\<close>. A status outside 400 to 599 is not a failure
  to the tools.
\<close>

theorem request_failures_become_envelopes:
  assumes "get_headers auth_manager = Inr hdrs"
  shows "(request_fails (http (problem_request config hdrs (list_query_params lparams))) \<longrightarrow>
           list_problems config auth_manager http lparams =
             ([HttpGet (problem_request config hdrs (list_query_params lparams)),
               LogError (''Failed to list problems: ''
                 @ failure_cause (http (problem_request config hdrs (list_query_params lparams))))],
              Inr (JObj [(''success'', JBool False),
                         (''message'', JStr (''Failed to list problems: ''
                            @ failure_cause
                                (http (problem_request config hdrs (list_query_params lparams))))),
                         (''problems'', JArr [])])))
       \<and> (request_fails (http (problem_request config hdrs (get_query_params gparams))) \<longrightarrow>
           get_problem_by_number config auth_manager http gparams =
             ([HttpGet (problem_request config hdrs (get_query_params gparams)),
               LogError (''Failed to fetch problem: ''
                 @ failure_cause (http (problem_request config hdrs (get_query_params gparams))))],
              Inr (JObj [(''success'', JBool False),
                         (''message'', JStr (''Failed to fetch problem: ''
                            @ failure_cause
                                (http (problem_request config hdrs (get_query_params gparams)))))])))
       \<and> (or_parts_loop (search_keywords sparams) [] \<noteq> [] \<longrightarrow>
          request_fails (http (problem_request config hdrs
             (search_query_params sparams
                (str_join ''^OR'' (or_parts_loop (search_keywords sparams) []))))) \<longrightarrow>
           search_problems config auth_manager http sparams =
             ([HttpGet (problem_request config hdrs
                 (search_query_params sparams
                    (str_join ''^OR'' (or_parts_loop (search_keywords sparams) [])))),
               LogError (''Failed to search problems: ''
                 @ failure_cause (http (problem_request config hdrs
                     (search_query_params sparams
                        (str_join ''^OR'' (or_parts_loop (search_keywords sparams) []))))))],
              Inr (JObj [(''success'', JBool False),
                         (''message'', JStr (''Failed to search problems: ''
                            @ failure_cause (http (problem_request config hdrs
                                (search_query_params sparams
                                   (str_join ''^OR''
                                      (or_parts_loop (search_keywords sparams) []))))))),
                         (''problems'', JArr [])])))"
  using list_problems_fails [OF assms] get_problem_by_number_fails [OF assms]
        search_problems_fails [OF assms]
  by blast

theorem request_failures_become_envelopes_witness:
  "list_problems test_config test_auth (raising (Exc Timeout ''Read timed out.''))
     \<lparr>limit = 10, offset = 0, state = None, assigned_to = None, category = None,
      query = None\<rparr> =
     ([HttpGet (problem_request test_config [(''Authorization'', ''Bearer FAKE'')]
         (list_query_params \<lparr>limit = 10, offset = 0, state = None, assigned_to = None,
                             category = None, query = None\<rparr>)),
       LogError ''Failed to list problems: Read timed out.''],
      Inr (JObj [(''success'', JBool False),
                 (''message'', JStr ''Failed to list problems: Read timed out.''),
                 (''problems'', JArr [])]))
   \<and> snd (get_problem_by_number test_config test_auth (replies 503 (Inr JNull))
            \<lparr>problem_number = ''PRB0010001''\<rparr>) =
       Inr (JObj [(''success'', JBool False),
                  (''message'',
                     JStr (''Failed to fetch problem: 503 Server Error: reason for url: '' @
                           ''https://dev12345.service-now.com/api/now/table/problem''))])
   \<and> snd (get_problem_by_number test_config test_auth (replies 404 (Inr JNull))
            \<lparr>problem_number = ''PRB0010001''\<rparr>) =
       Inr (JObj [(''success'', JBool False),
                  (''message'',
                     JStr (''Failed to fetch problem: 404 Client Error: reason for url: '' @
                           ''https://dev12345.service-now.com/api/now/table/problem''))])
   \<and> snd (search_problems test_config test_auth
            (replies 200 (Inl (Exc JSONDecodeError ''Expecting value: line 1 column 1 (char 0)'')))
            \<lparr>search_keywords = [''disk''], search_limit = 10, search_offset = 0\<rparr>) =
       Inr (JObj [(''success'', JBool False),
                  (''message'',
                     JStr ''Failed to search problems: Expecting value: line 1 column 1 (char 0)''),
                  (''problems'', JArr [])])"
proof -
  let ?lp = "\<lparr>limit = 10, offset = 0, state = None, assigned_to = None, category = None,
              query = None\<rparr>"
  let ?gp = "\<lparr>problem_number = ''PRB0010001''\<rparr>"
  let ?sp = "\<lparr>search_keywords = [''disk''], search_limit = 10, search_offset = 0\<rparr>"
  let ?hdrs = "[(''Authorization'', ''Bearer FAKE'')]"
  let ?bad = "replies 200 (Inl (Exc JSONDecodeError ''Expecting value: line 1 column 1 (char 0)''))"
  have h: "get_headers test_auth = Inr ?hdrs"
    by (simp add: test_auth_def)
  have f1: "request_fails ((raising (Exc Timeout ''Read timed out.''))
              (problem_request test_config ?hdrs (list_query_params ?lp)))"
    by (simp add: raising_def)
  have f2: "request_fails (replies 503 (Inr JNull)
              (problem_request test_config ?hdrs (get_query_params ?gp)))"
    by (simp add: replies_def)
  have f4: "request_fails (replies 404 (Inr JNull)
              (problem_request test_config ?hdrs (get_query_params ?gp)))"
    by (simp add: replies_def)
  have k: "or_parts_loop (search_keywords ?sp) [] \<noteq> []"
    by simp
  have f3: "request_fails (?bad
              (problem_request test_config ?hdrs
                 (search_query_params ?sp
                    (str_join ''^OR'' (or_parts_loop (search_keywords ?sp) [])))))"
    by (simp add: replies_def)
  have 1: "list_problems test_config test_auth (raising (Exc Timeout ''Read timed out.'')) ?lp =
     ([HttpGet (problem_request test_config ?hdrs (list_query_params ?lp)),
       LogError ''Failed to list problems: Read timed out.''],
      Inr (JObj [(''success'', JBool False),
                 (''message'', JStr ''Failed to list problems: Read timed out.''),
                 (''problems'', JArr [])]))"
    using request_failures_become_envelopes
            [OF h, of "raising (Exc Timeout ''Read timed out.'')" test_config ?lp ?gp ?sp] f1
    by (simp add: raising_def)
  have 2: "snd (get_problem_by_number test_config test_auth (replies 503 (Inr JNull)) ?gp) =
       Inr (JObj [(''success'', JBool False),
                  (''message'',
                     JStr (''Failed to fetch problem: 503 Server Error: reason for url: '' @
                           ''https://dev12345.service-now.com/api/now/table/problem''))])"
    using request_failures_become_envelopes
            [OF h, of "replies 503 (Inr JNull)" test_config ?lp ?gp ?sp] f2
    by (simp add: replies_def test_config_def str_int_def str_nat.simps digit_char_def)
  have 4: "snd (get_problem_by_number test_config test_auth (replies 404 (Inr JNull)) ?gp) =
       Inr (JObj [(''success'', JBool False),
                  (''message'',
                     JStr (''Failed to fetch problem: 404 Client Error: reason for url: '' @
                           ''https://dev12345.service-now.com/api/now/table/problem''))])"
    using request_failures_become_envelopes
            [OF h, of "replies 404 (Inr JNull)" test_config ?lp ?gp ?sp] f4
    by (simp add: replies_def test_config_def str_int_def str_nat.simps digit_char_def)
  have 3: "snd (search_problems test_config test_auth ?bad ?sp) =
       Inr (JObj [(''success'', JBool False),
                  (''message'',
                     JStr ''Failed to search problems: Expecting value: line 1 column 1 (char 0)''),
                  (''problems'', JArr [])])"
    using request_failures_become_envelopes [OF h, of ?bad test_config ?lp ?gp ?sp] k f3
    by (simp add: replies_def)
  from 1 2 4 3 show ?thesis
    by blast
qed

text \<open>
  C4 as stated fails for a status that is not 2xx: a response with status 302 and a body
  that parses is not a failure to \<open>list_problems\<close>; nothing is logged and the envelope
  has \<open>success = true\<close>.
\<close>

theorem status_302_counterexample:
  "list_problems test_config test_auth (replies 302 (Inr (JObj [(''result'', JArr [])])))
     \<lparr>limit = 10, offset = 0, state = None, assigned_to = None, category = None,
      query = None\<rparr> =
     ([HttpGet (problem_request test_config [(''Authorization'', ''Bearer FAKE'')]
         [(''sysparm_limit'', JInt 10), (''sysparm_offset'', JInt 0),
          (''sysparm_display_value'', JStr ''true''),
          (''sysparm_exclude_reference_link'', JStr ''true'')])],
      Inr (JObj [(''success'', JBool True),
                 (''message'', JStr ''Found 0 problems''),
                 (''problems'', JArr [])]))"
  by (simp add: list_problems_def list_problems_try_def list_query_params_def list_filters_def
        get_json_def test_auth_def test_config_def replies_def raise_for_status_def
        response_json_def problems_of_def py_get_default_def str_nat.simps digit_char_def)

text \<open>A body that parses to a document of another shape is no request exception: the
  attribute error of \<open>data.get\<close> on a JSON array leaves \<open>list_problems\<close> uncaught.\<close>

lemma list_problems_array_document:
  "snd (list_problems test_config test_auth (replies 200 (Inr (JArr [])))
          \<lparr>limit = 10, offset = 0, state = None, assigned_to = None, category = None,
           query = None\<rparr>) = Inl no_get"
  by (simp add: list_problems_def list_problems_try_def get_json_def test_auth_def replies_def
        raise_for_status_def response_json_def problems_of_def except_RequestException_def)

text \<open>An exception of \<open>json()\<close> that is no decode error is no request exception either: the
  \<open>RecursionError\<close> of a document nested too deep leaves \<open>list_problems\<close> uncaught.\<close>

lemma list_problems_deep_document:
  "snd (list_problems test_config test_auth
          (replies 200 (Inl (Exc RecursionError ''maximum recursion depth exceeded'')))
          \<lparr>limit = 10, offset = 0, state = None, assigned_to = None, category = None,
           query = None\<rparr>) = Inl (Exc RecursionError ''maximum recursion depth exceeded'')"
  by (simp add: list_problems_def list_problems_try_def get_json_def test_auth_def replies_def
        raise_for_status_def response_json_def except_RequestException_def)

subsection \<open>C5: search without keywords\<close>

text \<open>
  C5, as amended. For every keyword list whose entries are all the empty string, the empty
  list included, \<open>search_problems\<close> issues no HTTP request and returns \<open>success = true\<close>
  with an empty \<open>problems\<close> list and an explanatory message. Keywords are not trimmed: a
  keyword of white space only counts as a keyword.
\<close>

theorem search_problems_without_keywords:
  assumes "\<forall>kw \<in> set (search_keywords params). kw = []"
  shows "search_problems config auth_manager http params =
           ([], Inr (JObj [(''success'', JBool True),
                           (''message'',
                              JStr (if search_keywords params = [] then ''No keywords provided''
                                    else ''No valid keywords'')),
                           (''problems'', JArr [])]))"
proof -
  from assms have "or_parts_loop (search_keywords params) [] = []"
    by (simp add: or_parts_loop_empty)
  then show ?thesis
    by (simp add: search_problems_def Let_def)
qed

theorem search_problems_without_keywords_witness:
  "search_problems test_config test_auth (replies 200 (Inr (JObj [(''result'', JArr [])])))
     \<lparr>search_keywords = ['''', ''''], search_limit = 10, search_offset = 0\<rparr> =
     ([], Inr (JObj [(''success'', JBool True),
                     (''message'', JStr ''No valid keywords''),
                     (''problems'', JArr [])]))
   \<and> search_problems test_config test_auth (replies 200 (Inr (JObj [(''result'', JArr [])])))
       \<lparr>search_keywords = [], search_limit = 10, search_offset = 0\<rparr> =
       ([], Inr (JObj [(''success'', JBool True),
                       (''message'', JStr ''No keywords provided''),
                       (''problems'', JArr [])]))"
  using search_problems_without_keywords
          [of "\<lparr>search_keywords = ['''', ''''], search_limit = 10, search_offset = 0\<rparr>"
              test_config test_auth "replies 200 (Inr (JObj [(''result'', JArr [])]))"]
        search_problems_without_keywords
          [of "\<lparr>search_keywords = [], search_limit = 10, search_offset = 0\<rparr>"
              test_config test_auth "replies 200 (Inr (JObj [(''result'', JArr [])]))"]
  by simp

text \<open>
  C5 as stated fails: the single keyword of three spaces is blank after trimming, yet
  \<open>search_problems\<close> sends a request for it.
\<close>

theorem search_problems_blank_counterexample:
  "list_all is_blank [''   '']
   \<and> search_problems test_config test_auth (replies 200 (Inr (JObj [(''result'', JArr [])])))
       \<lparr>search_keywords = [''   ''], search_limit = 10, search_offset = 0\<rparr> =
       ([HttpGet (problem_request test_config [(''Authorization'', ''Bearer FAKE'')]
           [(''sysparm_query'', JStr ''short_descriptionLIKE   ^ORdescriptionLIKE   ''),
            (''sysparm_limit'', JInt 10),
            (''sysparm_offset'', JInt 0),
            (''sysparm_display_value'', JStr ''true''),
            (''sysparm_exclude_reference_link'', JStr ''true''),
            (''sysparm_fields'',
               JStr ''sys_id,number,short_description,state,priority,sys_created_on,sys_updated_on'')])],
        Inr (JObj [(''success'', JBool True),
                   (''message'', JStr ''Found 0 problems matching keywords''),
                   (''problems'', JArr [])]))"
  by (simp add: is_blank_def search_problems_def search_problems_try_def get_json_def
        test_auth_def test_config_def replies_def raise_for_status_def response_json_def
        problems_of_def py_get_default_def search_query_params_def str_nat.simps digit_char_def)

subsection \<open>C6: limit and offset\<close>

text \<open>
  C6, as amended. \<open>limit\<close> and \<open>offset\<close> are not range-checked. For every integer
  \<open>limit\<close> and \<open>offset\<close>, zero and negative ones included, the parameter models are
  constructed without a validation error, and \<open>list_problems\<close> and \<open>search_problems\<close>
  (given a non-empty keyword) send the request with \<open>sysparm_limit\<close> and
  \<open>sysparm_offset\<close> equal to the values given.
\<close>

theorem limit_and_offset_pass_through:
  assumes "get_headers auth_manager = Inr hdrs"
  shows "new_ListProblemsParams (Some l) (Some off) st asg cat q =
           Inr \<lparr>limit = l, offset = off, state = st, assigned_to = asg, category = cat,
                query = q\<rparr>
       \<and> (\<exists>qp logs.
             fst (call_list_problems config auth_manager http (Some l) (Some off) st asg cat q) =
               HttpGet (problem_request config hdrs qp) # logs
           \<and> map_of qp ''sysparm_limit'' = Some (JInt l)
           \<and> map_of qp ''sysparm_offset'' = Some (JInt off))
       \<and> new_SearchProblemsParams (Some kws) (Some l) (Some off) =
           Inr \<lparr>search_keywords = kws, search_limit = l, search_offset = off\<rparr>
       \<and> ((\<exists>kw \<in> set kws. kw \<noteq> []) \<longrightarrow>
            (\<exists>qp logs.
               fst (call_search_problems config auth_manager http (Some kws) (Some l) (Some off)) =
                 HttpGet (problem_request config hdrs qp) # logs
             \<and> map_of qp ''sysparm_limit'' = Some (JInt l)
             \<and> map_of qp ''sysparm_offset'' = Some (JInt off)))"
proof (intro conjI impI)
  show "new_ListProblemsParams (Some l) (Some off) st asg cat q =
           Inr \<lparr>limit = l, offset = off, state = st, assigned_to = asg, category = cat,
                query = q\<rparr>"
    by (simp add: new_ListProblemsParams_def)
  show "new_SearchProblemsParams (Some kws) (Some l) (Some off) =
           Inr \<lparr>search_keywords = kws, search_limit = l, search_offset = off\<rparr>"
    by (simp add: new_SearchProblemsParams_def)
next
  let ?p = "\<lparr>limit = l, offset = off, state = st, assigned_to = asg, category = cat,
             query = q\<rparr>"
  from list_problems_request [OF assms, of config http ?p] obtain logs where
    "fst (list_problems config auth_manager http ?p) =
       HttpGet (problem_request config hdrs (list_query_params ?p)) # logs"
    by blast
  then have "fst (call_list_problems config auth_manager http (Some l) (Some off) st asg cat q) =
               HttpGet (problem_request config hdrs (list_query_params ?p)) # logs"
    by (simp add: call_list_problems_def new_ListProblemsParams_def)
  moreover have "map_of (list_query_params ?p) ''sysparm_limit'' = Some (JInt l)"
    "map_of (list_query_params ?p) ''sysparm_offset'' = Some (JInt off)"
    by (simp_all add: list_query_params_paging)
  ultimately show "\<exists>qp logs.
             fst (call_list_problems config auth_manager http (Some l) (Some off) st asg cat q) =
               HttpGet (problem_request config hdrs qp) # logs
           \<and> map_of qp ''sysparm_limit'' = Some (JInt l)
           \<and> map_of qp ''sysparm_offset'' = Some (JInt off)"
    by blast
next
  assume k: "\<exists>kw \<in> set kws. kw \<noteq> []"
  let ?p = "\<lparr>search_keywords = kws, search_limit = l, search_offset = off\<rparr>"
  let ?qp = "search_query_params ?p (str_join ''^OR''
                   (concat (map like_clauses
                      (filter (\<lambda>kw. kw \<noteq> []) (search_keywords ?p)))))"
  from k have "\<exists>kw \<in> set (search_keywords ?p). kw \<noteq> []"
    by simp
  from search_problems_request [OF assms this, of config http] obtain logs where
    "fst (search_problems config auth_manager http ?p) =
       HttpGet (problem_request config hdrs ?qp) # logs"
    by blast
  then have "fst (call_search_problems config auth_manager http (Some kws) (Some l) (Some off)) =
               HttpGet (problem_request config hdrs ?qp) # logs"
    by (simp add: call_search_problems_def new_SearchProblemsParams_def)
  moreover have "map_of ?qp ''sysparm_limit'' = Some (JInt l)"
    "map_of ?qp ''sysparm_offset'' = Some (JInt off)"
    by (simp_all add: search_query_params_def)
  ultimately show "\<exists>qp logs.
               fst (call_search_problems config auth_manager http (Some kws) (Some l) (Some off)) =
                 HttpGet (problem_request config hdrs qp) # logs
             \<and> map_of qp ''sysparm_limit'' = Some (JInt l)
             \<and> map_of qp ''sysparm_offset'' = Some (JInt off)"
    by blast
qed

theorem limit_and_offset_pass_through_witness:
  "(\<exists>qp logs.
      fst (call_list_problems test_config test_auth
             (replies 200 (Inr (JObj [(''result'', JArr [])])))
             (Some 0) (Some (- 1)) None None None None) =
        HttpGet (problem_request test_config [(''Authorization'', ''Bearer FAKE'')] qp) # logs
    \<and> map_of qp ''sysparm_limit'' = Some (JInt 0)
    \<and> map_of qp ''sysparm_offset'' = Some (JInt (- 1)))
   \<and> (\<exists>qp logs.
      fst (call_search_problems test_config test_auth
             (replies 200 (Inr (JObj [(''result'', JArr [])])))
             (Some [''disk'']) (Some 0) (Some (- 1))) =
        HttpGet (problem_request test_config [(''Authorization'', ''Bearer FAKE'')] qp) # logs
    \<and> map_of qp ''sysparm_limit'' = Some (JInt 0)
    \<and> map_of qp ''sysparm_offset'' = Some (JInt (- 1)))"
proof -
  have h: "get_headers test_auth = Inr [(''Authorization'', ''Bearer FAKE'')]"
    by (simp add: test_auth_def)
  have k: "\<exists>kw \<in> set [''disk'']. kw \<noteq> []"
    by simp
  from limit_and_offset_pass_through
         [OF h, of 0 "- 1" None None None None test_config
            "replies 200 (Inr (JObj [(''result'', JArr [])]))" "[''disk'']"] k
  show ?thesis
    by blast
qed

text \<open>
  C6 as stated fails: \<open>limit = 0\<close> passed to \<open>list_problems\<close> raises no validation
  error; the request is sent with \<open>sysparm_limit = 0\<close> and the call succeeds. The same
  holds for \<open>offset = -1\<close>.
\<close>

theorem limit_zero_counterexample:
  "call_list_problems test_config test_auth (replies 200 (Inr (JObj [(''result'', JArr [])])))
     (Some 0) None None None None None =
     ([HttpGet (problem_request test_config [(''Authorization'', ''Bearer FAKE'')]
         [(''sysparm_limit'', JInt 0), (''sysparm_offset'', JInt 0),
          (''sysparm_display_value'', JStr ''true''),
          (''sysparm_exclude_reference_link'', JStr ''true'')])],
      Inr (JObj [(''success'', JBool True),
                 (''message'', JStr ''Found 0 problems''),
                 (''problems'', JArr [])]))
   \<and> call_list_problems test_config test_auth (replies 200 (Inr (JObj [(''result'', JArr [])])))
       None (Some (- 1)) None None None None =
       ([HttpGet (problem_request test_config [(''Authorization'', ''Bearer FAKE'')]
           [(''sysparm_limit'', JInt 10), (''sysparm_offset'', JInt (- 1)),
            (''sysparm_display_value'', JStr ''true''),
            (''sysparm_exclude_reference_link'', JStr ''true'')])],
        Inr (JObj [(''success'', JBool True),
                   (''message'', JStr ''Found 0 problems''),
                   (''problems'', JArr [])]))"
  by (simp add: call_list_problems_def new_ListProblemsParams_def list_problems_def
        list_problems_try_def list_query_params_def list_filters_def
        get_json_def test_auth_def test_config_def replies_def raise_for_status_def
        response_json_def problems_of_def py_get_default_def str_nat.simps digit_char_def)

subsection \<open>C7: the record number\<close>

text \<open>
  C7, as amended. The record number is required: a call without it fails with a validation
  error when the parameter model is constructed, before any request. A number that is given
  is not checked: for every string, the empty and the blank ones included,
  \<open>get_problem_by_number\<close> sends the lookup with \<open>sysparm_query = number=<that string>\<close>.
\<close>

theorem problem_number_required_not_checked:
  "call_get_problem_by_number config auth_manager http None =
     ([], Inl (Exc ValidationError ''problem_number: Field required''))
   \<and> new_GetProblemByNumberParams (Some n) = Inr \<lparr>problem_number = n\<rparr>
   \<and> (get_headers auth_manager = Inr hdrs \<longrightarrow>
        (\<exists>logs. fst (call_get_problem_by_number config auth_manager http (Some n)) =
           HttpGet (problem_request config hdrs
             [(''sysparm_query'', JStr (''number='' @ n)),
              (''sysparm_limit'', JInt 1),
              (''sysparm_display_value'', JStr ''true''),
              (''sysparm_exclude_reference_link'', JStr ''true'')]) # logs))"
proof (intro conjI impI)
  show "call_get_problem_by_number config auth_manager http None =
     ([], Inl (Exc ValidationError ''problem_number: Field required''))"
    by (simp add: call_get_problem_by_number_def new_GetProblemByNumberParams_def
          field_required_def)
  show "new_GetProblemByNumberParams (Some n) = Inr \<lparr>problem_number = n\<rparr>"
    by (simp add: new_GetProblemByNumberParams_def)
next
  assume h: "get_headers auth_manager = Inr hdrs"
  from get_problem_by_number_request [OF h, of config http "\<lparr>problem_number = n\<rparr>"]
  show "\<exists>logs. fst (call_get_problem_by_number config auth_manager http (Some n)) =
           HttpGet (problem_request config hdrs
             [(''sysparm_query'', JStr (''number='' @ n)),
              (''sysparm_limit'', JInt 1),
              (''sysparm_display_value'', JStr ''true''),
              (''sysparm_exclude_reference_link'', JStr ''true'')]) # logs"
    by (simp add: call_get_problem_by_number_def new_GetProblemByNumberParams_def
          get_query_params_def)
qed

theorem problem_number_required_not_checked_witness:
  "get_headers test_auth = Inr [(''Authorization'', ''Bearer FAKE'')]
   \<and> call_get_problem_by_number test_config test_auth
       (replies 200 (Inr (JObj [(''result'', JArr [])]))) None =
       ([], Inl (Exc ValidationError ''problem_number: Field required''))
   \<and> (\<exists>logs. fst (call_get_problem_by_number test_config test_auth
                    (replies 200 (Inr (JObj [(''result'', JArr [])]))) (Some ''PRB0010001'')) =
         HttpGet (problem_request test_config [(''Authorization'', ''Bearer FAKE'')]
           [(''sysparm_query'', JStr ''number=PRB0010001''),
            (''sysparm_limit'', JInt 1),
            (''sysparm_display_value'', JStr ''true''),
            (''sysparm_exclude_reference_link'', JStr ''true'')]) # logs)"
proof -
  have h: "get_headers test_auth = Inr [(''Authorization'', ''Bearer FAKE'')]"
    by (simp add: test_auth_def)
  from problem_number_required_not_checked
         [of test_config test_auth "replies 200 (Inr (JObj [(''result'', JArr [])]))"
             "''PRB0010001''" "[(''Authorization'', ''Bearer FAKE'')]"] h
  show ?thesis
    by simp
qed

text \<open>
  C7 as stated fails: a blank record number is no validation failure. For the number of
  two spaces, and for the empty number, the request is sent and the answer is the
  not-found envelope.
\<close>

theorem blank_problem_number_counterexample:
  "is_blank ''  ''
   \<and> call_get_problem_by_number test_config test_auth
       (replies 200 (Inr (JObj [(''result'', JArr [])]))) (Some ''  '') =
       ([HttpGet (problem_request test_config [(''Authorization'', ''Bearer FAKE'')]
           [(''sysparm_query'', JStr ''number=  ''),
            (''sysparm_limit'', JInt 1),
            (''sysparm_display_value'', JStr ''true''),
            (''sysparm_exclude_reference_link'', JStr ''true'')])],
        Inr (JObj [(''success'', JBool False),
                   (''message'', JStr ''Problem not found:   '')]))
   \<and> call_get_problem_by_number test_config test_auth
       (replies 200 (Inr (JObj [(''result'', JArr [])]))) (Some []) =
       ([HttpGet (problem_request test_config [(''Authorization'', ''Bearer FAKE'')]
           [(''sysparm_query'', JStr ''number=''),
            (''sysparm_limit'', JInt 1),
            (''sysparm_display_value'', JStr ''true''),
            (''sysparm_exclude_reference_link'', JStr ''true'')])],
        Inr (JObj [(''success'', JBool False),
                   (''message'', JStr ''Problem not found: '')]))"
  by (simp add: is_blank_def call_get_problem_by_number_def new_GetProblemByNumberParams_def
        get_problem_by_number_def get_problem_by_number_try_def get_query_params_def
        get_json_def test_auth_def test_config_def replies_def raise_for_status_def
        response_json_def py_get_default_def)

subsection \<open>C8: the filters of the listing\<close>

text \<open>
  C8. In \<open>list_problems\<close> the filters \<open>state\<close>, \<open>assigned_to\<close> and \<open>category\<close> that are
  given (and not empty) are rendered as \<open>field=value\<close>, in this order, a given free-text
  query as \<open>short_descriptionLIKE<query>^ORdescriptionLIKE<query>\<close> after them, and the
  clauses are joined with \<open>^\<close> into the \<open>sysparm_query\<close> of the request; when none is
  given, the request has no \<open>sysparm_query\<close> parameter.
\<close>

theorem list_problems_query:
  "(\<exists>clauses.
      clauses = eq_clause ''state'' (state params) @ eq_clause ''assigned_to'' (assigned_to params)
                  @ eq_clause ''category'' (category params) @ text_clause (query params)
    \<and> list_query_params params =
        [(''sysparm_limit'', JInt (limit params)),
         (''sysparm_offset'', JInt (offset params)),
         (''sysparm_display_value'', JStr ''true''),
         (''sysparm_exclude_reference_link'', JStr ''true'')]
        @ (if clauses = [] then [] else [(''sysparm_query'', JStr (str_join ''^'' clauses))])
    \<and> map_of (list_query_params params) ''sysparm_query'' =
        (if clauses = [] then None else Some (JStr (str_join ''^'' clauses))))
   \<and> (get_headers auth_manager = Inr hdrs \<longrightarrow>
        (\<exists>logs. fst (list_problems config auth_manager http params) =
           HttpGet (problem_request config hdrs (list_query_params params)) # logs))"
  using list_query_params_shape [of params] list_query_params_query [of params]
        list_problems_request [of auth_manager hdrs config http params]
  by (simp add: list_filters_clauses)

theorem list_problems_query_witness:
  "map_of (list_query_params
             \<lparr>limit = 5, offset = 0, state = Some ''1'', assigned_to = Some ''jane'',
              category = Some ''Software'', query = Some ''email''\<rparr>) ''sysparm_query'' =
     Some (JStr (''state=1^assigned_to=jane^category=Software'' @
                 ''^short_descriptionLIKEemail^ORdescriptionLIKEemail''))
   \<and> map_of (list_query_params
               \<lparr>limit = 5, offset = 0, state = None, assigned_to = Some ''jane'',
                category = None, query = None\<rparr>) ''sysparm_query'' =
       Some (JStr ''assigned_to=jane'')
   \<and> (\<exists>logs. fst (list_problems test_config test_auth
                    (replies 200 (Inr (JObj [(''result'', JArr [])])))
                    \<lparr>limit = 5, offset = 0, state = None, assigned_to = None,
                     category = None, query = None\<rparr>) =
         HttpGet (problem_request test_config [(''Authorization'', ''Bearer FAKE'')]
           [(''sysparm_limit'', JInt 5),
            (''sysparm_offset'', JInt 0),
            (''sysparm_display_value'', JStr ''true''),
            (''sysparm_exclude_reference_link'', JStr ''true'')]) # logs)"
proof -
  have h: "get_headers test_auth = Inr [(''Authorization'', ''Bearer FAKE'')]"
    by (simp add: test_auth_def)
  from list_problems_query
         [of "\<lparr>limit = 5, offset = 0, state = Some ''1'', assigned_to = Some ''jane'',
              category = Some ''Software'', query = Some ''email''\<rparr>"
             test_auth "[(''Authorization'', ''Bearer FAKE'')]" test_config
             "replies 200 (Inr (JObj [(''result'', JArr [])]))"]
  have 1: "map_of (list_query_params
             \<lparr>limit = 5, offset = 0, state = Some ''1'', assigned_to = Some ''jane'',
              category = Some ''Software'', query = Some ''email''\<rparr>) ''sysparm_query'' =
     Some (JStr (''state=1^assigned_to=jane^category=Software'' @
                 ''^short_descriptionLIKEemail^ORdescriptionLIKEemail''))"
    by (simp add: eq_clause_def text_clause_def)
  from list_problems_query
         [of "\<lparr>limit = 5, offset = 0, state = None, assigned_to = Some ''jane'',
                category = None, query = None\<rparr>"
             test_auth "[(''Authorization'', ''Bearer FAKE'')]" test_config
             "replies 200 (Inr (JObj [(''result'', JArr [])]))"]
  have 2: "map_of (list_query_params
               \<lparr>limit = 5, offset = 0, state = None, assigned_to = Some ''jane'',
                category = None, query = None\<rparr>) ''sysparm_query'' =
       Some (JStr ''assigned_to=jane'')"
    by (simp add: eq_clause_def text_clause_def)
  from list_problems_query
         [of "\<lparr>limit = 5, offset = 0, state = None, assigned_to = None,
                category = None, query = None\<rparr>"
             test_auth "[(''Authorization'', ''Bearer FAKE'')]" test_config
             "replies 200 (Inr (JObj [(''result'', JArr [])]))"] h
  have 3: "\<exists>logs. fst (list_problems test_config test_auth
                    (replies 200 (Inr (JObj [(''result'', JArr [])])))
                    \<lparr>limit = 5, offset = 0, state = None, assigned_to = None,
                     category = None, query = None\<rparr>) =
         HttpGet (problem_request test_config [(''Authorization'', ''Bearer FAKE'')]
           [(''sysparm_limit'', JInt 5),
            (''sysparm_offset'', JInt 0),
            (''sysparm_display_value'', JStr ''true''),
            (''sysparm_exclude_reference_link'', JStr ''true'')]) # logs"
    by (auto simp: eq_clause_def text_clause_def)
  from 1 2 3 show ?thesis
    by blast
qed

subsection \<open>C9: target and fixed parameters of every request\<close>

text \<open>
  C9. Every HTTP request that \<open>list_problems\<close>, \<open>get_problem_by_number\<close> and
  \<open>search_problems\<close> issue goes to \<open>{api_url}/table/problem\<close> and carries the query
  parameters \<open>sysparm_display_value=true\<close> and \<open>sysparm_exclude_reference_link=true\<close>.
\<close>

theorem every_request_targets_problem_table:
  "\<forall>ev \<in> set (fst (list_problems config auth_manager http lparams))
          \<union> set (fst (get_problem_by_number config auth_manager http gparams))
          \<union> set (fst (search_problems config auth_manager http sparams)).
     \<forall>req. ev = HttpGet req \<longrightarrow>
       req_url req = api_url config @ ''/table/problem''
       \<and> map_of (req_params req) ''sysparm_display_value'' = Some (JStr ''true'')
       \<and> map_of (req_params req) ''sysparm_exclude_reference_link'' = Some (JStr ''true'')"
proof (intro ballI allI impI)
  fix ev req
  assume ev: "ev \<in> set (fst (list_problems config auth_manager http lparams))
          \<union> set (fst (get_problem_by_number config auth_manager http gparams))
          \<union> set (fst (search_problems config auth_manager http sparams))"
    and r: "ev = HttpGet req"
  from ev r consider
      (l) "HttpGet req \<in> set (fst (list_problems config auth_manager http lparams))"
    | (g) "HttpGet req \<in> set (fst (get_problem_by_number config auth_manager http gparams))"
    | (s) "HttpGet req \<in> set (fst (search_problems config auth_manager http sparams))"
    by blast
  then show "req_url req = api_url config @ ''/table/problem''
       \<and> map_of (req_params req) ''sysparm_display_value'' = Some (JStr ''true'')
       \<and> map_of (req_params req) ''sysparm_exclude_reference_link'' = Some (JStr ''true'')"
  proof cases
    case l
    then obtain hdrs where "req = problem_request config hdrs (list_query_params lparams)"
      using list_problems_requests by blast
    then show ?thesis
      by (simp add: list_query_params_def Let_def map_of_dict_set)
  next
    case g
    then obtain hdrs where "req = problem_request config hdrs (get_query_params gparams)"
      using get_problem_by_number_requests by blast
    then show ?thesis
      by (simp add: get_query_params_def)
  next
    case s
    then obtain hdrs where "req = problem_request config hdrs
           (search_query_params sparams
              (str_join ''^OR'' (or_parts_loop (search_keywords sparams) [])))"
      using search_problems_requests by blast
    then show ?thesis
      by (simp add: search_query_params_def)
  qed
qed

theorem every_request_targets_problem_table_witness:
  "HttpGet (problem_request test_config [(''Authorization'', ''Bearer FAKE'')]
      (get_query_params \<lparr>problem_number = ''PRB0010001''\<rparr>))
     \<in> set (fst (get_problem_by_number test_config test_auth
                    (replies 200 (Inr (JObj [(''result'', JArr [])])))
                    \<lparr>problem_number = ''PRB0010001''\<rparr>))
   \<and> req_url (problem_request test_config [(''Authorization'', ''Bearer FAKE'')]
        (get_query_params \<lparr>problem_number = ''PRB0010001''\<rparr>)) =
       ''https://dev12345.service-now.com/api/now/table/problem''
   \<and> map_of (get_query_params \<lparr>problem_number = ''PRB0010001''\<rparr>) ''sysparm_display_value'' =
       Some (JStr ''true'')
   \<and> map_of (get_query_params \<lparr>problem_number = ''PRB0010001''\<rparr>)
        ''sysparm_exclude_reference_link'' = Some (JStr ''true'')"
proof -
  let ?req = "problem_request test_config [(''Authorization'', ''Bearer FAKE'')]
      (get_query_params \<lparr>problem_number = ''PRB0010001''\<rparr>)"
  let ?http = "replies 200 (Inr (JObj [(''result'', JArr [])]))"
  let ?lp = "\<lparr>limit = 10, offset = 0, state = None, assigned_to = None, category = None,
              query = None\<rparr>"
  let ?sp = "\<lparr>search_keywords = [''disk''], search_limit = 10, search_offset = 0\<rparr>"
  have m: "HttpGet ?req \<in> set (fst (get_problem_by_number test_config test_auth ?http
                    \<lparr>problem_number = ''PRB0010001''\<rparr>))"
    by (simp add: get_problem_by_number_def get_problem_by_number_try_def get_json_def
          test_auth_def replies_def raise_for_status_def response_json_def py_get_default_def)
  then have "HttpGet ?req \<in> set (fst (list_problems test_config test_auth ?http ?lp))
          \<union> set (fst (get_problem_by_number test_config test_auth ?http
                         \<lparr>problem_number = ''PRB0010001''\<rparr>))
          \<union> set (fst (search_problems test_config test_auth ?http ?sp))"
    by blast
  from every_request_targets_problem_table [rule_format, OF this, of ?req] m
  show ?thesis
    by (simp add: test_config_def)
qed

subsection \<open>C10: empty filter values\<close>

text \<open>
  C10. In \<open>list_problems\<close> an empty string for \<open>state\<close>, \<open>assigned_to\<close>, \<open>category\<close> or
  \<open>query\<close> is treated as an absent value: the call is the same as with the empty values
  left out, and with all four empty the request is the unfiltered listing, with no
  \<open>sysparm_query\<close>.
\<close>

theorem empty_filter_is_absent:
  "list_problems config auth_manager http params =
     list_problems config auth_manager http
       (params\<lparr>state := drop_empty (state params),
               assigned_to := drop_empty (assigned_to params),
               category := drop_empty (category params),
               query := drop_empty (query params)\<rparr>)
   \<and> list_query_params (params\<lparr>state := Some [], assigned_to := Some [], category := Some [],
                               query := Some []\<rparr>) =
       [(''sysparm_limit'', JInt (limit params)),
        (''sysparm_offset'', JInt (offset params)),
        (''sysparm_display_value'', JStr ''true''),
        (''sysparm_exclude_reference_link'', JStr ''true'')]
   \<and> list_problems config auth_manager http
       (params\<lparr>state := Some [], assigned_to := Some [], category := Some [],
               query := Some []\<rparr>) =
     list_problems config auth_manager http
       (params\<lparr>state := None, assigned_to := None, category := None, query := None\<rparr>)"
proof (intro conjI)
  show "list_problems config auth_manager http params =
     list_problems config auth_manager http
       (params\<lparr>state := drop_empty (state params),
               assigned_to := drop_empty (assigned_to params),
               category := drop_empty (category params),
               query := drop_empty (query params)\<rparr>)"
    by (rule list_problems_cong) (simp add: list_query_params_def list_filters_drop_empty)
  show "list_query_params (params\<lparr>state := Some [], assigned_to := Some [], category := Some [],
                               query := Some []\<rparr>) =
       [(''sysparm_limit'', JInt (limit params)),
        (''sysparm_offset'', JInt (offset params)),
        (''sysparm_display_value'', JStr ''true''),
        (''sysparm_exclude_reference_link'', JStr ''true'')]"
    by (simp add: list_query_params_def list_filters_def)
  show "list_problems config auth_manager http
       (params\<lparr>state := Some [], assigned_to := Some [], category := Some [],
               query := Some []\<rparr>) =
     list_problems config auth_manager http
       (params\<lparr>state := None, assigned_to := None, category := None, query := None\<rparr>)"
    by (rule list_problems_cong) (simp add: list_query_params_def list_filters_def)
qed

theorem empty_filter_is_absent_witness:
  "list_problems test_config test_auth (replies 200 (Inr (JObj [(''result'', JArr [])])))
     \<lparr>limit = 10, offset = 0, state = Some [], assigned_to = Some ''jane'', category = Some [],
      query = Some []\<rparr> =
   list_problems test_config test_auth (replies 200 (Inr (JObj [(''result'', JArr [])])))
     \<lparr>limit = 10, offset = 0, state = None, assigned_to = Some ''jane'', category = None,
      query = None\<rparr>
   \<and> list_query_params \<lparr>limit = 10, offset = 0, state = Some [], assigned_to = Some [],
                         category = Some [], query = Some []\<rparr> =
       [(''sysparm_limit'', JInt 10),
        (''sysparm_offset'', JInt 0),
        (''sysparm_display_value'', JStr ''true''),
        (''sysparm_exclude_reference_link'', JStr ''true'')]"
  using empty_filter_is_absent
          [of test_config test_auth "replies 200 (Inr (JObj [(''result'', JArr [])]))"
              "\<lparr>limit = 10, offset = 0, state = Some [], assigned_to = Some ''jane'',
                category = Some [], query = Some []\<rparr>"]
        empty_filter_is_absent
          [of test_config test_auth "replies 200 (Inr (JObj [(''result'', JArr [])]))"
              "\<lparr>limit = 10, offset = 0, state = Some [], assigned_to = Some [],
                category = Some [], query = Some []\<rparr>"]
  by (simp add: drop_empty_def given_def)

end
